theory Spec2Isabelle
  imports Complex_Main "HOL-Library.AList"
begin

section \<open>The Report Client of SignalGenerator: \<open>callN8N\<close>\<close>

text \<open>
  The development embeds \<open>callN8N\<close> of \<open>src/SignalGenerator.tsx\<close>. The revision
  \<open>part_002\<close> has the same function; \<open>part_001\<close> differs in the primary URL and in one
  more test of the validation callback (a symbol containing \<open>error\<close>). From the older
  revision \<open>part_000\<close>, which has a single endpoint, the development embeds the ticker
  normalisation and the response-shape normalisation.

  Modelling decisions.
  \<^item> A parsed JSON value is a \<open>json\<close>; \<open>undefined\<close> is \<open>None\<close> of \<open>json option\<close>.
    An object is the list of its own properties in enumeration order; \<open>JSON.parse\<close>
    never yields two properties with one key.
  \<^item> A number is modelled by its exact rational value. The code only tests numbers
    against zero and formats one inside a template literal; \<open>-0\<close> is identified with
    \<open>0\<close> (both are falsy and \<open>=== 0\<close>), and \<open>JSON.parse\<close> never yields \<open>NaN\<close>.
  \<^item> Strings are ASCII character lists: \<open>trim\<close> removes the ASCII white space and
    line terminators, \<open>toUpperCase\<close> maps \<open>a\<close>..\<open>z\<close> to \<open>A\<close>..\<open>Z\<close>.
  \<^item> The network, \<open>JSON.parse\<close> and the formatting of numbers belong to the runtime
    and are parameters (\<open>runtime\<close>). An exception is a value of \<open>js_error\<close>; every
    function that may throw returns a sum, \<open>Inl\<close> the exception.
  \<^item> \<open>callN8N\<close> returns, beside its result, the list of \<open>fetch\<close> calls it issued.
\<close>

subsection \<open>Values\<close>

datatype json =
    JNull
  | JBool bool
  | JNum rat
  | JStr string
  | JArr "json list"
  | JObj "(string \<times> json) list"

datatype js_error =
    Error string      \<comment> \<open>\<open>new Error(message)\<close>, thrown by \<open>callN8N\<close> itself\<close>
  | FetchError string \<comment> \<open>a rejection of \<open>fetch\<close> or of \<open>res.text()\<close>\<close>
  | TypeError         \<comment> \<open>the runtime's TypeError: a property of \<open>null\<close> or \<open>undefined\<close>
                          is read, or a non-function is called\<close>

text \<open>Truthiness of a value, and of a possibly undefined value.\<close>

fun truthy :: "json \<Rightarrow> bool" where
  "truthy JNull = False"
| "truthy (JBool b) = b"
| "truthy (JNum n) = (n \<noteq> 0)"
| "truthy (JStr s) = (s \<noteq> [])"
| "truthy (JArr xs) = True"
| "truthy (JObj kvs) = True"

fun truthy_opt :: "json option \<Rightarrow> bool" where
  "truthy_opt None = False"
| "truthy_opt (Some v) = truthy v"

text \<open>
  \<open>v.k\<close> for the property names the code reads (\<open>error\<close>, \<open>details\<close>, \<open>results\<close>,
  \<open>current_price\<close>), none of which is a built-in property of a string, number,
  boolean or array: reading from \<open>null\<close> or \<open>undefined\<close> throws, reading from another
  primitive or from an array gives \<open>undefined\<close>.
\<close>

fun get_prop :: "json option \<Rightarrow> string \<Rightarrow> js_error + json option" where
  "get_prop None k = Inl TypeError"
| "get_prop (Some JNull) k = Inl TypeError"
| "get_prop (Some (JObj kvs)) k = Inr (map_of kvs k)"
| "get_prop (Some v) k = Inr None"

text \<open>\<open>v?.k\<close>: as \<open>v.k\<close>, but \<open>undefined\<close> where \<open>v\<close> is \<open>null\<close> or \<open>undefined\<close>.\<close>

fun opt_prop :: "json option \<Rightarrow> string \<Rightarrow> json option" where
  "opt_prop (Some (JObj kvs)) k = map_of kvs k"
| "opt_prop v k = None"

text \<open>\<open>a[0]\<close> on an array.\<close>

fun first_elem :: "json list \<Rightarrow> json option" where
  "first_elem [] = None"
| "first_elem (x # xs) = Some x"

text \<open>\<open>a || b\<close> where \<open>a\<close> may be undefined and \<open>b\<close> is a value.\<close>

fun or_else :: "json option \<Rightarrow> json \<Rightarrow> json" where
  "or_else None b = b"
| "or_else (Some a) b = (if truthy a then a else b)"

subsection \<open>Strings\<close>

definition isWhiteSpace :: "char \<Rightarrow> bool" where
  "isWhiteSpace c \<longleftrightarrow>
     c \<in> set [CHR 0x09, CHR 0x0A, CHR 0x0B, CHR 0x0C, CHR 0x0D, CHR 0x20]"

definition trim :: "string \<Rightarrow> string" where
  "trim s = rev (dropWhile isWhiteSpace (rev (dropWhile isWhiteSpace s)))"

definition toUpperCase_char :: "char \<Rightarrow> char" where
  "toUpperCase_char c =
     (case map_of (zip ''abcdefghijklmnopqrstuvwxyz'' ''ABCDEFGHIJKLMNOPQRSTUVWXYZ'') c of
        Some u \<Rightarrow> u
      | None \<Rightarrow> c)"

definition toUpperCase :: "string \<Rightarrow> string" where
  "toUpperCase s = map toUpperCase_char s"

text \<open>\<open>s.split(c)\<close> for a one-character separator; the result is never empty.\<close>

fun split_on :: "char \<Rightarrow> string \<Rightarrow> string list" where
  "split_on c [] = [] # []"
| "split_on c (x # xs) =
     (if x = c then [] # split_on c xs
      else (case split_on c xs of [] \<Rightarrow> [x] # [] | y # ys \<Rightarrow> (x # y) # ys))"

text \<open>\<open>a.join(sep)\<close> on an array of strings.\<close>

fun join :: "string \<Rightarrow> string list \<Rightarrow> string" where
  "join sep [] = []"
| "join sep [x] = x"
| "join sep (x # y # ys) = x @ sep @ join sep (y # ys)"

text \<open>The decimal numeral of a natural number (an HTTP status, an array index).\<close>

fun string_of_nat :: "nat \<Rightarrow> string" where
  "string_of_nat n =
     (if n < 10 then [''0123456789'' ! n]
      else string_of_nat (n div 10) @ [''0123456789'' ! (n mod 10)])"

declare string_of_nat.simps [simp del]

text \<open>
  \<open>String(v)\<close>, as a template literal applies it; \<open>ns\<close> formats a number. An object
  is converted by the first callable of its \<open>toString\<close> and \<open>valueOf\<close> that returns a
  primitive: a parsed object without an own \<open>toString\<close> property inherits the one that
  returns \<open>[object Object]\<close>; with an own \<open>toString\<close> property (a parsed value, never a
  function) neither is left, whatever \<open>valueOf\<close> is, and the conversion throws a
  TypeError. An array prints its elements separated by commas, \<open>null\<close> elements as the
  empty string, and throws where an element does.
\<close>

fun toString :: "(rat \<Rightarrow> string) \<Rightarrow> json \<Rightarrow> js_error + string"
  and toString_elements :: "(rat \<Rightarrow> string) \<Rightarrow> json list \<Rightarrow> js_error + string list" where
  "toString ns JNull = Inr ''null''"
| "toString ns (JBool b) = Inr (if b then ''true'' else ''false'')"
| "toString ns (JNum n) = Inr (ns n)"
| "toString ns (JStr s) = Inr s"
| "toString ns (JObj kvs) =
     (if map_of kvs ''toString'' = None then Inr ''[object Object]'' else Inl TypeError)"
| "toString ns (JArr xs) =
     (case toString_elements ns xs of Inl e \<Rightarrow> Inl e | Inr ss \<Rightarrow> Inr (join '','' ss))"
| "toString_elements ns [] = Inr []"
| "toString_elements ns (x # xs) =
     (case (if x = JNull then Inr [] else toString ns x) of
        Inl e \<Rightarrow> Inl e
      | Inr s \<Rightarrow>
          (case toString_elements ns xs of Inl e \<Rightarrow> Inl e | Inr ss \<Rightarrow> Inr (s # ss)))"

subsection \<open>Objects\<close>

text \<open>
  The own enumerable properties that \<open>{...v}\<close> copies: those of an object, the
  indexed elements of an array, the indexed characters of a string, none otherwise.
\<close>

fun spread :: "json \<Rightarrow> (string \<times> json) list" where
  "spread (JObj kvs) = kvs"
| "spread (JArr xs) = zip (map string_of_nat [0..<length xs]) xs"
| "spread (JStr s) = zip (map string_of_nat [0..<length s]) (map (\<lambda>c. JStr [c]) s)"
| "spread v = []"

text \<open>
  \<open>{...r, isInvalid: true, invalidReason: reason}\<close>. A key that \<open>r\<close> has keeps its
  place and takes the new value, a new key goes last (\<open>AList.update\<close>).
\<close>

definition mark_invalid :: "json \<Rightarrow> json \<Rightarrow> json" where
  "mark_invalid r reason =
     JObj (AList.update ''invalidReason'' reason
            (AList.update ''isInvalid'' (JBool True) (spread r)))"

subsection \<open>The runtime\<close>

record Payload =
  tickers :: string
  format :: string
  timeHorizon :: string
  riskTolerance :: string
  exchange :: string

text \<open>
  The second argument of \<open>fetch\<close>. \<open>body\<close> holds the object that \<open>JSON.stringify\<close> is
  applied to: the serialised text is a function of it.
\<close>

record request =
  http_method :: string
  headers :: "(string \<times> string) list"
  body :: json

text \<open>
  What the code reads of a \<open>Response\<close>: the status, and the text that
  \<open>await res.text()\<close> resolves to or the exception it rejects with. \<open>res.ok\<close> is
  true for the statuses 200 to 299.
\<close>

datatype response = Response (status: nat) (res_text: "js_error + string")

definition ok :: "response \<Rightarrow> bool" where
  "ok res \<longleftrightarrow> 200 \<le> status res \<and> status res \<le> 299"

datatype fetch_outcome = Rejected js_error | Resolved response

text \<open>
  \<open>fetch\<close> as a function of the URL and the request (the two calls of \<open>callN8N\<close> go
  to different URLs, so any pair of outcomes is such a function); \<open>JSON_parse\<close>
  gives \<open>None\<close> where \<open>JSON.parse\<close> throws.
\<close>

record runtime =
  fetch :: "string \<Rightarrow> request \<Rightarrow> fetch_outcome"
  JSON_parse :: "string \<Rightarrow> json option"
  Number_toString :: "rat \<Rightarrow> string"

subsection \<open>\<open>callN8N\<close> (src/SignalGenerator.tsx)\<close>

text \<open>The callback of \<open>payload.tickers.split(',').map(...)\<close>, lines 102 to 106.\<close>

definition normalize_ticker :: "string \<Rightarrow> string \<Rightarrow> string" where
  "normalize_ticker exch t =
     (let trimmed = toUpperCase (trim t)
      in if CHR ''.'' \<in> set trimmed then trimmed else trimmed @ ''.'' @ exch)"

text \<open>The constant \<open>tickers\<close>, lines 100 to 107.\<close>

definition normalized_tickers :: "Payload \<Rightarrow> string" where
  "normalized_tickers payload =
     join '','' (map (normalize_ticker (exchange payload)) (split_on CHR '','' (tickers payload)))"

definition primaryUrl :: string where
  "primaryUrl = ''https://anandshinde75.app.n8n.cloud/webhook/signalGenerator''"

definition fallbackUrl :: string where
  "fallbackUrl = ''/webhook/signalGenerator''"

definition requestBody :: "Payload \<Rightarrow> json" where
  "requestBody payload =
     JObj [(''Ticker '', JStr (normalized_tickers payload)),
           (''Time Horizon'', JStr (timeHorizon payload)),
           (''Risk Tolerance'', JStr (riskTolerance payload)),
           (''Output Format'', JStr ''Detailed'')]"

definition request_init :: "json \<Rightarrow> request" where
  "request_init rb =
     \<lparr>http_method = ''POST'', headers = [(''Content-Type'', ''application/json'')], body = rb\<rparr>"

text \<open>
  The record synthesised for one requested symbol, lines 164 to 174:
  \<open>invalid_ticker_record\<close> is the object literal for a given value of the template
  literal of line 173, \<open>invalid_ticker_result\<close> the callback, which throws where the
  template literal cannot convert \<open>errorMsg\<close>.
\<close>

definition invalid_ticker_record :: "string \<Rightarrow> string \<Rightarrow> json" where
  "invalid_ticker_record reason symbol =
     JObj [(''symbol'', JStr (trim symbol)),
           (''current_price'', JNum 0),
           (''signal'', JStr ''SELL/AVOID''),
           (''confidence'', JStr ''0%''),
           (''entry_price'', JNum 0),
           (''target_price'', JNum 0),
           (''stop_loss'', JNum 0),
           (''isInvalid'', JBool True),
           (''invalidReason'', JStr reason)]"

definition invalid_ticker_result ::
  "(rat \<Rightarrow> string) \<Rightarrow> json \<Rightarrow> string \<Rightarrow> js_error + json" where
  "invalid_ticker_result ns errorMsg symbol =
     (case toString ns errorMsg of
        Inl e \<Rightarrow> Inl e
      | Inr msg \<Rightarrow> Inr (invalid_ticker_record (''Invalid ticker: '' @ msg) symbol))"

text \<open>
  \<open>Array.isArray(parsed) && parsed[0]?.error\<close>, line 159: the value of
  \<open>parsed[0].error\<close> where the condition is truthy.
\<close>

fun error_array :: "json \<Rightarrow> json option" where
  "error_array (JArr xs) =
     (case opt_prop (first_elem xs) ''error'' of
        None \<Rightarrow> None
      | Some e \<Rightarrow> if truthy e then Some e else None)"
| "error_array v = None"

text \<open>
  The callback of \<open>result.results.map(...)\<close>, lines 184 to 198. Reading \<open>r.error\<close>
  throws for a \<open>null\<close> record; \<open>check_price\<close> is the second test and the final
  \<open>return r\<close>.
\<close>

definition missing_price :: "json option \<Rightarrow> bool" where
  "missing_price p \<longleftrightarrow> \<not> truthy_opt p \<or> p = Some (JNum 0)"

definition check_price :: "json \<Rightarrow> json" where
  "check_price r =
     (if missing_price (opt_prop (Some r) ''current_price'')
      then mark_invalid r (JStr ''Invalid or delisted symbol - no price data available'')
      else r)"

definition validate_result :: "json \<Rightarrow> js_error + json" where
  "validate_result r =
     (case get_prop (Some r) ''error'' of
        Inl e \<Rightarrow> Inl e
      | Inr None \<Rightarrow> Inr (check_price r)
      | Inr (Some error) \<Rightarrow>
          if truthy error
          then Inr (mark_invalid r (or_else (opt_prop (Some r) ''details'') error))
          else Inr (check_price r))"

text \<open>\<open>Array.prototype.map\<close> with a callback that may throw: the first exception ends it.\<close>

fun map_throw :: "('a \<Rightarrow> js_error + 'b) \<Rightarrow> 'a list \<Rightarrow> js_error + 'b list" where
  "map_throw f [] = Inr []"
| "map_throw f (x # xs) =
     (case f x of
        Inl e \<Rightarrow> Inl e
      | Inr y \<Rightarrow> (case map_throw f xs of Inl e \<Rightarrow> Inl e | Inr ys \<Rightarrow> Inr (y # ys)))"

text \<open>
  Lines 179 to 202: \<open>result\<close> is the first element of an array (\<open>undefined\<close> for the
  empty array) or the parsed value itself. \<open>result.results\<close> throws on \<open>null\<close> and
  \<open>undefined\<close>; a truthy \<open>results\<close> that is no array has no \<open>map\<close> to call; the
  assignment replaces the property \<open>results\<close> of the object where it stands.
\<close>

definition extract_result :: "json \<Rightarrow> json option" where
  "extract_result parsed = (case parsed of JArr xs \<Rightarrow> first_elem xs | _ \<Rightarrow> Some parsed)"

definition validate_results :: "json option \<Rightarrow> js_error + json" where
  "validate_results result =
     (case get_prop result ''results'' of
        Inl e \<Rightarrow> Inl e
      | Inr results \<Rightarrow>
          if truthy_opt results
          then (case (result, results) of
                  (Some (JObj kvs), Some (JArr rs)) \<Rightarrow>
                    (case map_throw validate_result rs of
                       Inl e \<Rightarrow> Inl e
                     | Inr rs' \<Rightarrow> Inr (JObj (AList.update ''results'' (JArr rs') kvs)))
                | _ \<Rightarrow> Inl TypeError)
          else (case result of Some res \<Rightarrow> Inr res | None \<Rightarrow> Inl TypeError))"

text \<open>
  Lines 158 to 202: what one attempt makes of the parsed body. The callback of
  \<open>tickerSymbols.map(...)\<close> runs once for each requested symbol, and there is at least
  one.
\<close>

definition handle_parsed :: "(rat \<Rightarrow> string) \<Rightarrow> string \<Rightarrow> json \<Rightarrow> js_error + json" where
  "handle_parsed ns tickers_str parsed =
     (case error_array parsed of
        Some errorMsg \<Rightarrow>
          (case map_throw (invalid_ticker_result ns errorMsg) (split_on CHR '','' tickers_str) of
             Inl e \<Rightarrow> Inl e
           | Inr results \<Rightarrow> Inr (JObj [(''results'', JArr results)]))
      | None \<Rightarrow> validate_results (extract_result parsed))"

text \<open>The body of the \<open>try\<close> block, lines 129 to 202, for one URL.\<close>

definition attempt :: "runtime \<Rightarrow> string \<Rightarrow> json \<Rightarrow> string \<Rightarrow> js_error + json" where
  "attempt rt tickers_str rb url =
     (case fetch rt url (request_init rb) of
        Rejected e \<Rightarrow> Inl e
      | Resolved res \<Rightarrow>
          if \<not> ok res
          then (case res_text res of
                  Inl e \<Rightarrow> Inl e
                | Inr errorText \<Rightarrow>
                    Inl (Error (''HTTP '' @ string_of_nat (status res) @ '': ''
                      @ (if errorText \<noteq> [] then errorText else ''Failed to fetch data''))))
          else (case res_text res of
                  Inl e \<Rightarrow> Inl e
                | Inr responseText \<Rightarrow>
                    if responseText = [] \<or> trim responseText = []
                    then Inl (Error
                      ''Empty response from webhook. Make sure your n8n workflow returns data.'')
                    else (case JSON_parse rt responseText of
                            None \<Rightarrow> Inl (Error
                              ''Invalid JSON response from webhook. Check your n8n workflow output.'')
                          | Some parsed \<Rightarrow>
                              handle_parsed (Number_toString rt) tickers_str parsed)))"

text \<open>
  The loop over \<open>urls\<close>, lines 124 to 214, on the URLs still to try: \<open>lastError\<close> is
  the exception of the latest failed attempt, \<open>calls\<close> the \<open>fetch\<close> calls issued so far.
  Every exception of the model is an \<open>Error\<close> instance, so the \<open>catch\<close> keeps it as it
  is; after the last URL the loop ends and \<open>lastError\<close> is thrown.
\<close>

fun try_urls ::
  "runtime \<Rightarrow> string \<Rightarrow> json \<Rightarrow> string list \<Rightarrow> js_error option \<Rightarrow> (string \<times> request) list
     \<Rightarrow> (string \<times> request) list \<times> (js_error + json)" where
  "try_urls rt tickers_str rb [] lastError calls =
     (calls, Inl (case lastError of Some e \<Rightarrow> e | None \<Rightarrow> Error ''All endpoints failed''))"
| "try_urls rt tickers_str rb (url # urls) lastError calls =
     (case attempt rt tickers_str rb url of
        Inr result \<Rightarrow> (calls @ [(url, request_init rb)], Inr result)
      | Inl e \<Rightarrow> try_urls rt tickers_str rb urls (Some e) (calls @ [(url, request_init rb)]))"

definition callN8N :: "runtime \<Rightarrow> Payload \<Rightarrow> (string \<times> request) list \<times> (js_error + json)" where
  "callN8N rt payload =
     try_urls rt (normalized_tickers payload) (requestBody payload)
       [primaryUrl, fallbackUrl] None []"

subsection \<open>\<open>callN8N\<close> of the older revision (part_000)\<close>

text \<open>The constant \<open>tickers\<close>, lines 9 to 13: the same callback, joined with \<open>', '\<close>.\<close>

definition normalized_tickers_part000 :: "Payload \<Rightarrow> string" where
  "normalized_tickers_part000 payload =
     join '', '' (map (normalize_ticker (exchange payload)) (split_on CHR '','' (tickers payload)))"

text \<open>
  The shape normalisation, lines 30 to 37, of the value \<open>data\<close> that
  \<open>await response.json()\<close> resolved to.
\<close>

definition normalize_shape_part000 :: "json \<Rightarrow> js_error + json" where
  "normalize_shape_part000 data =
     (case data of
        JArr xs \<Rightarrow>
          (case first_elem xs of
             Some x \<Rightarrow>
               if truthy_opt (opt_prop (Some x) ''results'') then Inr x
               else Inr (JObj [(''results'', data)])
           | None \<Rightarrow> Inr (JObj [(''results'', data)]))
      | _ \<Rightarrow>
          (case get_prop (Some data) ''results'' of
             Inl e \<Rightarrow> Inl e
           | Inr results \<Rightarrow>
               if truthy_opt results then Inr data
               else Inr (JObj [(''results'', JArr [data])])))"

subsection \<open>Example inputs\<close>

definition payload_AAA_BBB :: Payload where
  "payload_AAA_BBB =
     \<lparr>tickers = ''AAA,BBB'', format = ''Detailed'', timeHorizon = ''Medium-term'',
      riskTolerance = ''Moderate'', exchange = ''NS''\<rparr>"


definition payload_mixed :: Payload where
  "payload_mixed =
     \<lparr>tickers = '' infy ,reliance.bo,TCS'', format = ''Detailed'', timeHorizon = ''Short-term'',
      riskTolerance = ''Moderate'', exchange = ''NS''\<rparr>"

definition payload_dotted :: Payload where
  "payload_dotted =
     \<lparr>tickers = ''reliance.bo'', format = ''Detailed'', timeHorizon = ''Long-term'',
      riskTolerance = ''Conservative'', exchange = ''NS''\<rparr>"

text \<open>
  A runtime given by two tables: the outcome of \<open>fetch\<close> for each URL (a URL that is
  not listed cannot be reached) and the value of \<open>JSON.parse\<close> for each text (a text
  that is not listed is no JSON). No example formats a number.
\<close>

definition example_runtime ::
  "(string \<times> fetch_outcome) list \<Rightarrow> (string \<times> json) list \<Rightarrow> runtime" where
  "example_runtime net parses =
     \<lparr>fetch = (\<lambda>url req. case map_of net url of
                            Some out \<Rightarrow> out
                          | None \<Rightarrow> Rejected (FetchError ''Failed to fetch'')),
      JSON_parse = map_of parses,
      Number_toString = (\<lambda>n. [])\<rparr>"

definition record_priced :: json where
  "record_priced =
     JObj [(''symbol'', JStr ''AAA.NS''), (''current_price'', JNum 100), (''signal'', JStr ''BUY'')]"

definition record_zero_price :: json where
  "record_zero_price =
     JObj [(''symbol'', JStr ''BBB.NS''), (''current_price'', JNum 0), (''signal'', JStr ''HOLD'')]"

definition record_delisted :: json where
  "record_delisted =
     JObj [(''symbol'', JStr ''CCC.NS''), (''error'', JStr ''not found''),
           (''details'', JStr ''symbol delisted'')]"

definition record_empty_error :: json where
  "record_empty_error =
     JObj [(''symbol'', JStr ''AAA.NS''), (''error'', JStr []), (''current_price'', JNum 100)]"

definition record_empty_details :: json where
  "record_empty_details =
     JObj [(''symbol'', JStr ''CCC.NS''), (''error'', JStr ''not found''), (''details'', JStr [])]"

definition body_results :: json where
  "body_results = JObj [(''results'', JArr [record_priced, record_zero_price])]"

definition text_results :: string where
  "text_results =
     ''{\"results\": [{\"symbol\": \"AAA.NS\", \"current_price\": 100, \"signal\": \"BUY\"}, {\"symbol\": \"BBB.NS\", \"current_price\": 0, \"signal\": \"HOLD\"}]}''"


definition text_error_array :: string where
  "text_error_array = ''[{\"error\": \"bad ticker\"}]''"

definition text_empty_error_array :: string where
  "text_empty_error_array = ''[{\"error\": \"\"}]''"

definition rt_error_array :: runtime where
  "rt_error_array =
     example_runtime
       [(primaryUrl, Resolved (Response 200 (Inr text_error_array)))]
       [(text_error_array, JArr [JObj [(''error'', JStr ''bad ticker'')]])]"

definition rt_error_array_fallback :: runtime where
  "rt_error_array_fallback =
     example_runtime
       [(fallbackUrl, Resolved (Response 200 (Inr text_error_array)))]
       [(text_error_array, JArr [JObj [(''error'', JStr ''bad ticker'')]])]"

definition rt_empty_error_array :: runtime where
  "rt_empty_error_array =
     example_runtime
       [(primaryUrl, Resolved (Response 200 (Inr text_empty_error_array)))]
       [(text_empty_error_array, JArr [JObj [(''error'', JStr [])]])]"

definition text_unprintable_error :: string where
  "text_unprintable_error = ''[{\"error\": {\"toString\": 1}}]''"

definition rt_unprintable_error :: runtime where
  "rt_unprintable_error =
     example_runtime
       [(primaryUrl, Resolved (Response 200 (Inr text_unprintable_error))),
        (fallbackUrl, Resolved (Response 200 (Inr text_results)))]
       [(text_unprintable_error, JArr [JObj [(''error'', JObj [(''toString'', JNum 1)])]]),
        (text_results, body_results)]"

definition rt_both_fail :: runtime where
  "rt_both_fail =
     example_runtime
       [(primaryUrl, Rejected (FetchError ''Failed to fetch'')),
        (fallbackUrl, Resolved (Response 500 (Inr ''Internal Server Error'')))]
       []"

definition rt_fallback_unreachable :: runtime where
  "rt_fallback_unreachable =
     example_runtime [(primaryUrl, Resolved (Response 404 (Inr ''Not Found'')))] []"

definition rt_fallback_empty :: runtime where
  "rt_fallback_empty =
     example_runtime
       [(primaryUrl, Resolved (Response 200 (Inr ''<html>''))),
        (fallbackUrl, Resolved (Response 200 (Inr ''  '')))]
       []"

definition rt_fallback_malformed :: runtime where
  "rt_fallback_malformed =
     example_runtime
       [(primaryUrl, Resolved (Response 200 (Inr []))),
        (fallbackUrl, Resolved (Response 200 (Inr ''<html>'')))]
       []"

definition rt_fallback_ok :: runtime where
  "rt_fallback_ok =
     example_runtime
       [(primaryUrl, Resolved (Response 502 (Inr []))),
        (fallbackUrl, Resolved (Response 200 (Inr text_results)))]
       [(text_results, body_results)]"


definition rt_null_body :: runtime where
  "rt_null_body =
     example_runtime
       [(primaryUrl, Resolved (Response 200 (Inr ''null''))),
        (fallbackUrl, Resolved (Response 200 (Inr text_results)))]
       [(''null'', JNull), (text_results, body_results)]"

section \<open>Auxiliary facts\<close>

subsection \<open>Splitting and joining\<close>

lemma split_on_not_Nil: "split_on c s \<noteq> []"
  by (induction s) (auto split: list.splits)

lemma split_on_no_sep: "e \<in> set (split_on c s) \<Longrightarrow> c \<notin> set e"
  by (induction s arbitrary: e) (auto split: if_splits list.splits)

lemma split_on_no_sep_id: "c \<notin> set e \<Longrightarrow> split_on c e = [e]"
  by (induction e) auto

lemma split_on_append:
  "c \<notin> set e \<Longrightarrow> split_on c (e @ c # s) = e # split_on c s"
  by (induction e) auto

lemma split_on_join:
  "es \<noteq> [] \<Longrightarrow> \<forall>e \<in> set es. c \<notin> set e \<Longrightarrow> split_on c (join [c] es) = es"
proof (induction "[c]" es rule: join.induct)
  case 1
  then show ?case by simp
next
  case (2 x)
  then show ?case by (simp add: split_on_no_sep_id)
next
  case (3 x y ys)
  then show ?case by (simp add: split_on_append)
qed

lemma toUpperCase_char_dot: "toUpperCase_char x = CHR ''.'' \<longleftrightarrow> x = CHR ''.''"
  by (auto simp: toUpperCase_char_def split: option.splits if_splits)

lemma toUpperCase_char_comma: "toUpperCase_char x = CHR '','' \<longleftrightarrow> x = CHR '',''"
  by (auto simp: toUpperCase_char_def split: option.splits if_splits)

lemma dot_in_toUpperCase: "CHR ''.'' \<in> set (toUpperCase s) \<longleftrightarrow> CHR ''.'' \<in> set s"
proof -
  have "CHR ''.'' \<in> toUpperCase_char ` set s \<longleftrightarrow> (\<exists>x \<in> set s. toUpperCase_char x = CHR ''.'')"
    by (metis imageE imageI)
  then show ?thesis by (simp add: toUpperCase_def toUpperCase_char_dot)
qed

lemma comma_in_toUpperCase: "CHR '','' \<in> set (toUpperCase s) \<longleftrightarrow> CHR '','' \<in> set s"
proof -
  have "CHR '','' \<in> toUpperCase_char ` set s \<longleftrightarrow> (\<exists>x \<in> set s. toUpperCase_char x = CHR '','')"
    by (metis imageE imageI)
  then show ?thesis by (simp add: toUpperCase_def toUpperCase_char_comma)
qed

lemma set_trim_subset: "set (trim s) \<subseteq> set s"
proof -
  have "set (trim s) \<subseteq> set (dropWhile isWhiteSpace s)"
    unfolding trim_def using set_dropWhileD by fastforce
  also have "\<dots> \<subseteq> set s" using set_dropWhileD by fastforce
  finally show ?thesis .
qed

lemma in_dropWhile: "x \<in> set s \<Longrightarrow> \<not> P x \<Longrightarrow> x \<in> set (dropWhile P s)"
  by (induction s) auto

lemma in_trim: "x \<in> set s \<Longrightarrow> \<not> isWhiteSpace x \<Longrightarrow> x \<in> set (trim s)"
  unfolding trim_def by (simp add: in_dropWhile)

lemma dot_in_trim: "CHR ''.'' \<in> set (trim s) \<longleftrightarrow> CHR ''.'' \<in> set s"
  using in_trim [of "CHR ''.''" s] set_trim_subset [of s]
  by (auto simp: isWhiteSpace_def)

lemma normalize_ticker_no_comma:
  "CHR '','' \<notin> set t \<Longrightarrow> CHR '','' \<notin> set exch \<Longrightarrow> CHR '','' \<notin> set (normalize_ticker exch t)"
  using set_trim_subset [of t]
  by (auto simp: normalize_ticker_def Let_def comma_in_toUpperCase)

lemma split_normalized_tickers:
  assumes "CHR '','' \<notin> set (exchange payload)"
  shows "split_on CHR '','' (normalized_tickers payload) =
         map (normalize_ticker (exchange payload)) (split_on CHR '','' (tickers payload))"
proof -
  let ?es = "map (normalize_ticker (exchange payload)) (split_on CHR '','' (tickers payload))"
  have "?es \<noteq> []" by (simp add: split_on_not_Nil)
  moreover have "\<forall>e \<in> set ?es. CHR '','' \<notin> set e"
  proof
    fix e assume "e \<in> set ?es"
    then obtain t where t: "t \<in> set (split_on CHR '','' (tickers payload))"
      and e: "e = normalize_ticker (exchange payload) t" by auto
    from t have "CHR '','' \<notin> set t" by (rule split_on_no_sep)
    with assms show "CHR '','' \<notin> set e" unfolding e by (intro normalize_ticker_no_comma)
  qed
  ultimately show ?thesis
    unfolding normalized_tickers_def using split_on_join [of ?es "CHR '',''"] by simp
qed

lemma takeWhile_dot: "CHR ''.'' \<notin> set u \<Longrightarrow> takeWhile (\<lambda>c. c \<noteq> CHR ''.'') (u @ ''.'' @ e) = u"
  by (induction u) auto

lemma dropWhile_dot: "CHR ''.'' \<notin> set u \<Longrightarrow> dropWhile (\<lambda>c. c \<noteq> CHR ''.'') (u @ ''.'' @ e) = ''.'' @ e"
  by (induction u) auto

lemma dot_in_normal_form: "CHR ''.'' \<in> set (toUpperCase (trim t)) \<longleftrightarrow> CHR ''.'' \<in> set t"
  by (simp add: dot_in_toUpperCase dot_in_trim)

subsection \<open>Marking a record\<close>

lemma map_of_mark:
  "map_of (AList.update ''invalidReason'' v (AList.update ''isInvalid'' (JBool True) kvs)) =
   (map_of kvs)(''isInvalid'' \<mapsto> JBool True, ''invalidReason'' \<mapsto> v)"
  by (simp add: update_conv')

subsection \<open>Exceptions of the validation\<close>


lemma validate_result_error: "validate_result r = Inl e \<Longrightarrow> e = TypeError"
  by (cases r) (auto simp: validate_result_def split: if_splits option.splits)


lemma map_throw_error:
  "map_throw f xs = Inl e \<Longrightarrow> \<exists>x \<in> set xs. f x = Inl e"
  by (induction xs) (auto split: sum.splits)

lemma get_prop_error: "get_prop v k = Inl e \<Longrightarrow> e = TypeError"
  by (induction v k rule: get_prop.induct) auto

lemma validate_results_error: "validate_results result = Inl e \<Longrightarrow> e = TypeError"
proof -
  assume a: "validate_results result = Inl e"
  show ?thesis
  proof (cases "get_prop result ''results''")
    case (Inl e')
    then have "e' = TypeError" by (rule get_prop_error)
    with a Inl show ?thesis by (simp add: validate_results_def)
  next
    case (Inr results)
    with a show ?thesis
      by (auto simp: validate_results_def split: if_splits option.splits json.splits sum.splits
          dest!: map_throw_error validate_result_error)
  qed
qed

lemma toString_error:
  "toString ns v = Inl e \<Longrightarrow> e = TypeError"
  "toString_elements ns xs = Inl e \<Longrightarrow> e = TypeError"
  by (induction ns v and ns xs arbitrary: e and e rule: toString_toString_elements.induct)
    (auto split: if_splits sum.splits)

lemma invalid_ticker_result_error: "invalid_ticker_result ns v symbol = Inl e \<Longrightarrow> e = TypeError"
  by (auto simp: invalid_ticker_result_def split: sum.splits dest: toString_error)

lemma map_throw_all_ok: "\<forall>x \<in> set xs. f x = Inr (g x) \<Longrightarrow> map_throw f xs = Inr (map g xs)"
  by (induction xs) auto

lemma map_throw_all_fail: "xs \<noteq> [] \<Longrightarrow> \<forall>x \<in> set xs. f x = Inl e \<Longrightarrow> map_throw f xs = Inl e"
  by (cases xs) auto

lemma handle_parsed_error: "handle_parsed ns tk parsed = Inl e \<Longrightarrow> e = TypeError"
  by (auto simp: handle_parsed_def split: option.splits sum.splits
      dest: validate_results_error dest!: map_throw_error invalid_ticker_result_error)

lemma handle_parsed_object:
  "handle_parsed ns tk (JObj kvs) = validate_results (Some (JObj kvs))"
  by (simp add: handle_parsed_def extract_result_def)

lemma handle_parsed_singleton:
  "\<not> truthy_opt (opt_prop (Some x) ''error'') \<Longrightarrow>
   handle_parsed ns tk (JArr [x]) = validate_results (Some x)"
  by (auto simp: handle_parsed_def extract_result_def split: option.splits)

lemma validate_result_throws_iff: "validate_result r = Inl e \<longleftrightarrow> r = JNull \<and> e = TypeError"
  by (cases r) (auto simp: validate_result_def split: option.splits)

lemma map_throw_validate_iff:
  "map_throw validate_result rs = Inl e \<longleftrightarrow> JNull \<in> set rs \<and> e = TypeError"
proof (induction rs)
  case Nil
  then show ?case by simp
next
  case (Cons r rs)
  show ?case
  proof (cases "validate_result r")
    case (Inl e')
    then show ?thesis using validate_result_throws_iff [of r e'] by auto
  next
    case (Inr r')
    then have "r \<noteq> JNull" by (auto simp: validate_result_def)
    with Inr Cons show ?thesis by (auto split: sum.splits)
  qed
qed


lemma validate_results_throws_iff:
  "validate_results result = Inl e \<longleftrightarrow>
     e = TypeError \<and>
     (result = None \<or> result = Some JNull \<or>
      (\<exists>kvs v. result = Some (JObj kvs) \<and> map_of kvs ''results'' = Some v \<and> truthy v \<and>
         (\<forall>rs. v = JArr rs \<longrightarrow> JNull \<in> set rs)))"
proof (induction result "''results''" rule: get_prop.induct)
  case 1
  then show ?case by (auto simp: validate_results_def)
next
  case 2
  then show ?case by (auto simp: validate_results_def)
next
  case (3 kvs)
  show ?case
  proof (cases "map_of kvs ''results''")
    case None
    then show ?thesis by (auto simp: validate_results_def)
  next
    case (Some v)
    show ?thesis
    proof (cases "truthy v")
      case False
      with Some show ?thesis by (auto simp: validate_results_def)
    next
      case True
      show ?thesis
      proof (cases v)
        case (JArr rs)
        with Some True show ?thesis
          using map_throw_validate_iff [of rs e]
          by (auto simp: validate_results_def split: sum.splits)
      qed (use Some True in \<open>auto simp: validate_results_def\<close>)
    qed
  qed
qed (auto simp: validate_results_def)

subsection \<open>One attempt, two attempts\<close>

lemma callN8N_unfold:
  "callN8N rt payload =
     (case attempt rt (normalized_tickers payload) (requestBody payload) primaryUrl of
        Inr r \<Rightarrow> ([(primaryUrl, request_init (requestBody payload))], Inr r)
      | Inl e1 \<Rightarrow>
          ([(primaryUrl, request_init (requestBody payload)),
            (fallbackUrl, request_init (requestBody payload))],
           attempt rt (normalized_tickers payload) (requestBody payload) fallbackUrl))"
  by (simp add: callN8N_def split: sum.splits)

lemma trim_Nil: "trim [] = []"
  by (simp add: trim_def)

lemma attempt_ok:
  assumes "fetch rt url (request_init rb) = Resolved (Response st (Inr txt))"
    and "200 \<le> st" and "st \<le> 299" and "trim txt \<noteq> []"
    and "JSON_parse rt txt = Some parsed"
  shows "attempt rt tk rb url = handle_parsed (Number_toString rt) tk parsed"
proof -
  from assms(4) have "txt \<noteq> []" using trim_Nil by auto
  with assms show ?thesis by (simp add: attempt_def ok_def)
qed

lemma attempt_throws_iff:
  "isl (attempt rt tk rb url) \<longleftrightarrow>
     (case fetch rt url (request_init rb) of
        Rejected err \<Rightarrow> True
      | Resolved res \<Rightarrow>
          \<not> ok res \<or>
          (case res_text res of
             Inl err \<Rightarrow> True
           | Inr txt \<Rightarrow>
               trim txt = [] \<or>
               (case JSON_parse rt txt of
                  None \<Rightarrow> True
                | Some parsed \<Rightarrow> handle_parsed (Number_toString rt) tk parsed = Inl TypeError)))"
proof -
  have h: "isl (handle_parsed ns tk parsed) \<longleftrightarrow> handle_parsed ns tk parsed = Inl TypeError"
    for ns parsed
    by (cases "handle_parsed ns tk parsed") (auto dest: handle_parsed_error)
  show ?thesis
    by (auto simp: attempt_def h trim_Nil split: fetch_outcome.splits sum.splits option.splits)
qed

lemma urls_distinct: "primaryUrl \<noteq> fallbackUrl"
  by (simp add: primaryUrl_def fallbackUrl_def)

lemma handle_parsed_error_array_cases:
  assumes "error_array parsed = Some e"
  shows "handle_parsed ns tk parsed =
           (case toString ns e of
              Inl err \<Rightarrow> Inl err
            | Inr msg \<Rightarrow>
                Inr (JObj [(''results'',
                       JArr (map (invalid_ticker_record (''Invalid ticker: '' @ msg))
                              (split_on CHR '','' tk)))]))"
proof (cases "toString ns e")
  case (Inl err)
  then have "map_throw (invalid_ticker_result ns e) (split_on CHR '','' tk) = Inl err"
    by (intro map_throw_all_fail) (simp_all add: invalid_ticker_result_def split_on_not_Nil)
  with assms Inl show ?thesis
    by (simp add: handle_parsed_def)
next
  case (Inr msg)
  then have "map_throw (invalid_ticker_result ns e) (split_on CHR '','' tk) =
      Inr (map (invalid_ticker_record (''Invalid ticker: '' @ msg)) (split_on CHR '','' tk))"
    by (intro map_throw_all_ok) (simp add: invalid_ticker_result_def)
  with assms Inr show ?thesis
    by (simp add: handle_parsed_def)
qed

lemma toString_elements_throws_iff:
  "toString_elements ns vs = Inl TypeError \<longleftrightarrow>
     (\<exists>v. v \<in> set vs \<and> toString ns v = Inl TypeError)"
proof (induction vs)
  case Nil
  then show ?case by simp
next
  case (Cons v vs)
  show ?case
  proof (cases "v = JNull")
    case True
    with Cons show ?thesis by (auto split: sum.splits)
  next
    case False
    with Cons show ?thesis by (auto split: sum.splits dest: toString_error)
  qed
qed

lemma toString_array_throws_iff:
  "toString ns (JArr vs) = Inl TypeError \<longleftrightarrow>
     (\<exists>v. v \<in> set vs \<and> toString ns v = Inl TypeError)"
  using toString_elements_throws_iff [of ns vs]
  by (auto split: sum.splits dest: toString_error)

lemma handle_parsed_error_array:
  assumes "opt_prop (Some x) ''error'' = Some e" and "truthy e"
    and "toString ns e = Inr msg"
  shows "handle_parsed ns tk (JArr (x # xs)) =
           Inr (JObj [(''results'',
                  JArr (map (invalid_ticker_record (''Invalid ticker: '' @ msg))
                         (split_on CHR '','' tk)))])"
proof -
  have "map_throw (invalid_ticker_result ns e) (split_on CHR '','' tk) =
      Inr (map (invalid_ticker_record (''Invalid ticker: '' @ msg)) (split_on CHR '','' tk))"
    using assms(3) by (intro map_throw_all_ok) (simp add: invalid_ticker_result_def)
  with assms(1,2) show ?thesis
    by (simp add: handle_parsed_def)
qed

lemma handle_parsed_error_array_throws:
  assumes "opt_prop (Some x) ''error'' = Some e" and "truthy e"
    and "toString ns e = Inl err"
  shows "handle_parsed ns tk (JArr (x # xs)) = Inl err"
proof -
  have "map_throw (invalid_ticker_result ns e) (split_on CHR '','' tk) = Inl err"
    using assms(3)
    by (intro map_throw_all_fail) (simp_all add: invalid_ticker_result_def split_on_not_Nil)
  with assms(1,2) show ?thesis
    by (simp add: handle_parsed_def)
qed

subsection \<open>The example runtimes\<close>

lemma string_of_nat_500: "string_of_nat 500 = ''500''"
  by (simp add: string_of_nat.simps)


lemma string_of_nat_404: "string_of_nat 404 = ''404''"
  by (simp add: string_of_nat.simps)

lemma fetch_example:
  "fetch (example_runtime net parses) url req =
     (case map_of net url of Some out \<Rightarrow> out | None \<Rightarrow> Rejected (FetchError ''Failed to fetch''))"
  by (simp add: example_runtime_def)

lemma parse_example: "JSON_parse (example_runtime net parses) = map_of parses"
  by (simp add: example_runtime_def)

lemma validate_body_results:
  "handle_parsed ns tk body_results =
     Inr (JObj [(''results'', JArr [record_priced,
        JObj [(''symbol'', JStr ''BBB.NS''), (''current_price'', JNum 0),
              (''signal'', JStr ''HOLD''), (''isInvalid'', JBool True),
              (''invalidReason'',
               JStr ''Invalid or delisted symbol - no price data available'')]])])"
  by (simp add: handle_parsed_object body_results_def validate_results_def validate_result_def
      check_price_def record_priced_def record_zero_price_def missing_price_def mark_invalid_def)

lemma trim_text_results: "trim text_results \<noteq> []"
  by (simp add: trim_def text_results_def isWhiteSpace_def)

lemma normalized_AAA_BBB:
  assumes "tickers payload = ''AAA,BBB''" and "exchange payload = ''NS''"
  shows "normalized_tickers payload = ''AAA.NS,BBB.NS''"
  using assms
  by (simp add: normalized_tickers_def normalize_ticker_def trim_def isWhiteSpace_def
      toUpperCase_def toUpperCase_char_def)

lemma trim_text_error_array: "trim text_error_array \<noteq> []"
  by (simp add: trim_def text_error_array_def isWhiteSpace_def)

lemma fetch_rt_error_array:
  "fetch rt_error_array primaryUrl req = Resolved (Response 200 (Inr text_error_array))"
  by (simp add: rt_error_array_def fetch_example)

lemma parse_rt_error_array:
  "JSON_parse rt_error_array text_error_array = Some (JArr [JObj [(''error'', JStr ''bad ticker'')]])"
  by (simp add: rt_error_array_def parse_example)

lemma callN8N_empty_error_array:
  "callN8N rt_empty_error_array payload =
     ([(primaryUrl, request_init (requestBody payload))], Inr (JObj [(''error'', JStr [])]))"
proof -
  have t: "trim text_empty_error_array \<noteq> []"
    by (simp add: trim_def text_empty_error_array_def isWhiteSpace_def)
  have f: "fetch rt_empty_error_array primaryUrl (request_init (requestBody payload)) =
      Resolved (Response 200 (Inr text_empty_error_array))"
    by (simp add: rt_empty_error_array_def fetch_example)
  have s1: "(200::nat) \<le> 200" and s2: "(200::nat) \<le> 299"
    by simp_all
  have j: "JSON_parse rt_empty_error_array text_empty_error_array =
      Some (JArr [JObj [(''error'', JStr [])]])"
    by (simp add: rt_empty_error_array_def parse_example)
  have "attempt rt_empty_error_array (normalized_tickers payload) (requestBody payload)
      primaryUrl = Inr (JObj [(''error'', JStr [])])"
    using attempt_ok [OF f s1 s2 t j, of "normalized_tickers payload"]
    by (simp add: handle_parsed_def extract_result_def validate_results_def)
  then show ?thesis
    by (simp add: callN8N_unfold)
qed

lemma callN8N_unprintable_error:
  "attempt rt_unprintable_error (normalized_tickers payload) (requestBody payload) primaryUrl =
     Inl TypeError
   \<and> callN8N rt_unprintable_error payload =
     ([(primaryUrl, request_init (requestBody payload)),
       (fallbackUrl, request_init (requestBody payload))],
      Inr (JObj [(''results'', JArr [record_priced,
        JObj [(''symbol'', JStr ''BBB.NS''), (''current_price'', JNum 0),
              (''signal'', JStr ''HOLD''), (''isInvalid'', JBool True),
              (''invalidReason'',
               JStr ''Invalid or delisted symbol - no price data available'')]])]))"
proof -
  let ?tk = "normalized_tickers payload" and ?rb = "requestBody payload"
  have t: "trim text_unprintable_error \<noteq> []"
    by (simp add: trim_def text_unprintable_error_def isWhiteSpace_def)
  have f: "fetch rt_unprintable_error primaryUrl (request_init ?rb) =
      Resolved (Response 200 (Inr text_unprintable_error))"
    by (simp add: rt_unprintable_error_def fetch_example)
  have g: "fetch rt_unprintable_error fallbackUrl (request_init ?rb) =
      Resolved (Response 200 (Inr text_results))"
    using urls_distinct by (simp add: rt_unprintable_error_def fetch_example)
  have s1: "(200::nat) \<le> 200" and s2: "(200::nat) \<le> 299"
    by simp_all
  have j: "JSON_parse rt_unprintable_error text_unprintable_error =
      Some (JArr [JObj [(''error'', JObj [(''toString'', JNum 1)])]])"
    by (simp add: rt_unprintable_error_def parse_example)
  have k: "JSON_parse rt_unprintable_error text_results = Some body_results"
    by (simp add: rt_unprintable_error_def parse_example)
      (simp add: text_results_def text_unprintable_error_def)
  have e: "opt_prop (Some (JObj [(''error'', JObj [(''toString'', JNum 1)])])) ''error'' =
      Some (JObj [(''toString'', JNum 1)])"
    by simp
  have u: "toString ns (JObj [(''toString'', JNum 1)]) = Inl TypeError" for ns
    by simp
  have a: "attempt rt_unprintable_error ?tk ?rb primaryUrl = Inl TypeError"
    using attempt_ok [OF f s1 s2 t j, of ?tk] handle_parsed_error_array_throws [OF e _ u]
    by simp
  have b: "attempt rt_unprintable_error ?tk ?rb fallbackUrl =
      handle_parsed (Number_toString rt_unprintable_error) ?tk body_results"
    using g s1 s2 trim_text_results k by (rule attempt_ok)
  show ?thesis
    by (simp add: callN8N_unfold a b validate_body_results)
qed

section \<open>Ticker normalisation\<close>

text \<open>
  Claim C2, as amended. An element of the ticker input that contains a \<open>.\<close> gets no
  exchange suffix: in the normalised list it appears trimmed and upper-cased, in the main
  revision (joined with \<open>,\<close>) and in part_000 (joined with \<open>, \<close>) alike. It appears
  exactly as it stood in the input when it was trimmed and upper-case already.
\<close>

theorem C2_dotted_ticker_gets_no_suffix:
  assumes "i < length (split_on CHR '','' (tickers payload))"
    and "CHR ''.'' \<in> set (split_on CHR '','' (tickers payload) ! i)"
  shows "normalized_tickers payload =
           join '','' (map (normalize_ticker (exchange payload)) (split_on CHR '','' (tickers payload)))
       \<and> normalized_tickers_part000 payload =
           join '', '' (map (normalize_ticker (exchange payload)) (split_on CHR '','' (tickers payload)))
       \<and> map (normalize_ticker (exchange payload)) (split_on CHR '','' (tickers payload)) ! i =
           toUpperCase (trim (split_on CHR '','' (tickers payload) ! i))
       \<and> (toUpperCase (trim (split_on CHR '','' (tickers payload) ! i)) =
              split_on CHR '','' (tickers payload) ! i \<longrightarrow>
            map (normalize_ticker (exchange payload)) (split_on CHR '','' (tickers payload)) ! i =
              split_on CHR '','' (tickers payload) ! i)"
  using assms
  by (simp add: normalized_tickers_def normalized_tickers_part000_def normalize_ticker_def
      Let_def dot_in_normal_form)

theorem C2_witness:
  "1 < length (split_on CHR '','' ''INFY,RELIANCE.BO'')
   \<and> CHR ''.'' \<in> set (split_on CHR '','' ''INFY,RELIANCE.BO'' ! 1)
   \<and> toUpperCase (trim (split_on CHR '','' ''INFY,RELIANCE.BO'' ! 1)) =
       split_on CHR '','' ''INFY,RELIANCE.BO'' ! 1
   \<and> map (normalize_ticker ''NS'') (split_on CHR '','' ''INFY,RELIANCE.BO'') ! 1 = ''RELIANCE.BO''"
proof -
  let ?p = "\<lparr>tickers = ''INFY,RELIANCE.BO'', format = ''Detailed'', timeHorizon = ''Short-term'',
      riskTolerance = ''Moderate'', exchange = ''NS''\<rparr>"
  have v: "split_on CHR '','' ''INFY,RELIANCE.BO'' = [''INFY'', ''RELIANCE.BO'']"
    by simp
  have h1: "1 < length (split_on CHR '','' (tickers ?p))"
    by (simp add: v)
  have h2: "CHR ''.'' \<in> set (split_on CHR '','' (tickers ?p) ! 1)"
    by (simp add: v)
  have h3: "toUpperCase (trim (split_on CHR '','' (tickers ?p) ! 1)) =
      split_on CHR '','' (tickers ?p) ! 1"
    by (simp add: v trim_def isWhiteSpace_def toUpperCase_def toUpperCase_char_def)
  show ?thesis
    using C2_dotted_ticker_gets_no_suffix [OF h1 h2] h1 h2 h3 by (simp add: v)
qed

text \<open>
  Claim C2 as stated fails: the element \<open>reliance.bo\<close> contains a \<open>.\<close> and appears in
  the normalised output as \<open>RELIANCE.BO\<close>, not as it stood in the input.
\<close>

theorem C2_counterexample:
  "split_on CHR '','' (tickers payload_dotted) = [''reliance.bo'']
   \<and> CHR ''.'' \<in> set ''reliance.bo''
   \<and> normalized_tickers payload_dotted = ''RELIANCE.BO''
   \<and> normalized_tickers_part000 payload_dotted = ''RELIANCE.BO''
   \<and> ''RELIANCE.BO'' \<noteq> ''reliance.bo''"
  by (simp add: payload_dotted_def normalized_tickers_def normalized_tickers_part000_def
      normalize_ticker_def trim_def isWhiteSpace_def toUpperCase_def toUpperCase_char_def)

text \<open>
  Claim C4. An element of the ticker input that, trimmed and upper-cased, contains no
  \<open>.\<close> appears in the normalised list as that trimmed, upper-cased element followed by
  one \<open>.\<close> and the exchange: the text before its first \<open>.\<close> is the element, the text
  from its first \<open>.\<close> on is the suffix. The normalised elements are joined with commas
  in the order of the input; where the exchange holds no comma, splitting the normalised
  string at the commas gives the same number of elements back, each at its position.
\<close>

theorem C4_exactly_one_exchange_suffix:
  assumes "i < length (split_on CHR '','' (tickers payload))"
    and "CHR ''.'' \<notin> set (toUpperCase (trim (split_on CHR '','' (tickers payload) ! i)))"
  shows "normalized_tickers payload =
           join '','' (map (normalize_ticker (exchange payload)) (split_on CHR '','' (tickers payload)))
       \<and> map (normalize_ticker (exchange payload)) (split_on CHR '','' (tickers payload)) ! i =
           toUpperCase (trim (split_on CHR '','' (tickers payload) ! i)) @ ''.'' @ exchange payload
       \<and> takeWhile (\<lambda>c. c \<noteq> CHR ''.'')
            (map (normalize_ticker (exchange payload)) (split_on CHR '','' (tickers payload)) ! i) =
           toUpperCase (trim (split_on CHR '','' (tickers payload) ! i))
       \<and> dropWhile (\<lambda>c. c \<noteq> CHR ''.'')
            (map (normalize_ticker (exchange payload)) (split_on CHR '','' (tickers payload)) ! i) =
           ''.'' @ exchange payload
       \<and> (CHR '','' \<notin> set (exchange payload) \<longrightarrow>
            length (split_on CHR '','' (normalized_tickers payload)) =
              length (split_on CHR '','' (tickers payload))
          \<and> split_on CHR '','' (normalized_tickers payload) ! i =
              toUpperCase (trim (split_on CHR '','' (tickers payload) ! i)) @ ''.'' @ exchange payload)"
proof -
  let ?es = "split_on CHR '','' (tickers payload)"
  let ?u = "toUpperCase (trim (?es ! i))"
  have n: "map (normalize_ticker (exchange payload)) ?es ! i = ?u @ ''.'' @ exchange payload"
    using assms by (simp add: normalize_ticker_def Let_def)
  have t: "takeWhile (\<lambda>c. c \<noteq> CHR ''.'') (?u @ ''.'' @ exchange payload) = ?u"
    using assms(2) by (rule takeWhile_dot)
  have d: "dropWhile (\<lambda>c. c \<noteq> CHR ''.'') (?u @ ''.'' @ exchange payload) = ''.'' @ exchange payload"
    using assms(2) by (rule dropWhile_dot)
  have s: "CHR '','' \<notin> set (exchange payload) \<Longrightarrow>
      split_on CHR '','' (normalized_tickers payload) = map (normalize_ticker (exchange payload)) ?es"
    by (rule split_normalized_tickers)
  show ?thesis
    using n t d s by (simp add: normalized_tickers_def)
qed

theorem C4_witness:
  "2 < length (split_on CHR '','' (tickers payload_mixed))
   \<and> CHR ''.'' \<notin> set (toUpperCase (trim (split_on CHR '','' (tickers payload_mixed) ! 2)))
   \<and> CHR '','' \<notin> set (exchange payload_mixed)
   \<and> normalized_tickers payload_mixed = ''INFY.NS,RELIANCE.BO,TCS.NS''
   \<and> split_on CHR '','' (normalized_tickers payload_mixed) ! 2 = ''TCS.NS''"
proof -
  have h1: "2 < length (split_on CHR '','' (tickers payload_mixed))"
    by (simp add: payload_mixed_def)
  have h2: "CHR ''.'' \<notin> set (toUpperCase (trim (split_on CHR '','' (tickers payload_mixed) ! 2)))"
    by (simp add: payload_mixed_def trim_def isWhiteSpace_def toUpperCase_def toUpperCase_char_def)
  have h3: "CHR '','' \<notin> set (exchange payload_mixed)"
    by (simp add: payload_mixed_def)
  have v: "split_on CHR '','' (tickers payload_mixed) = ['' infy '', ''reliance.bo'', ''TCS'']"
    by (simp add: payload_mixed_def)
  show ?thesis
    using C4_exactly_one_exchange_suffix [OF h1 h2] h1 h2 h3
    by (simp add: v normalize_ticker_def trim_def isWhiteSpace_def toUpperCase_def
        toUpperCase_char_def) (simp add: payload_mixed_def)
qed

section \<open>Per-record validation\<close>

text \<open>
  Claim C7. A record with no \<open>error\<close> field whose \<open>current_price\<close> is absent or zero
  is returned with \<open>isInvalid\<close> true and \<open>invalidReason\<close> "Invalid or delisted symbol -
  no price data available", every other field as it was; a record with no \<open>error\<close> field
  and a non-zero \<open>current_price\<close> is returned as it is.
\<close>

theorem C7_price_validation:
  assumes "map_of kvs ''error'' = None"
  shows "(map_of kvs ''current_price'' = None \<or> map_of kvs ''current_price'' = Some (JNum 0) \<longrightarrow>
            validate_result (JObj kvs) =
              Inr (JObj (AList.update ''invalidReason''
                     (JStr ''Invalid or delisted symbol - no price data available'')
                     (AList.update ''isInvalid'' (JBool True) kvs)))
          \<and> map_of (AList.update ''invalidReason''
                     (JStr ''Invalid or delisted symbol - no price data available'')
                     (AList.update ''isInvalid'' (JBool True) kvs)) =
              (map_of kvs)(''isInvalid'' \<mapsto> JBool True,
                 ''invalidReason'' \<mapsto> JStr ''Invalid or delisted symbol - no price data available''))
       \<and> (\<forall>n. n \<noteq> 0 \<and> map_of kvs ''current_price'' = Some (JNum n) \<longrightarrow>
            validate_result (JObj kvs) = Inr (JObj kvs))"
  using assms
  by (auto simp: validate_result_def check_price_def missing_price_def mark_invalid_def map_of_mark)

theorem C7_witness:
  "map_of [(''symbol'', JStr ''BBB.NS''), (''current_price'', JNum 0), (''signal'', JStr ''HOLD'')]
     ''error'' = None
   \<and> map_of [(''symbol'', JStr ''AAA.NS''), (''current_price'', JNum 100), (''signal'', JStr ''BUY'')]
     ''error'' = None
   \<and> validate_result record_zero_price =
       Inr (JObj [(''symbol'', JStr ''BBB.NS''), (''current_price'', JNum 0),
                  (''signal'', JStr ''HOLD''), (''isInvalid'', JBool True),
                  (''invalidReason'', JStr ''Invalid or delisted symbol - no price data available'')])
   \<and> validate_result record_priced = Inr record_priced"
proof -
  have z: "map_of [(''symbol'', JStr ''BBB.NS''), (''current_price'', JNum 0),
      (''signal'', JStr ''HOLD'')] ''error'' = None"
    by simp
  have p: "map_of [(''symbol'', JStr ''AAA.NS''), (''current_price'', JNum 100),
      (''signal'', JStr ''BUY'')] ''error'' = None"
    by simp
  show ?thesis
    using C7_price_validation [OF z] C7_price_validation [OF p] z p
    by (simp add: record_zero_price_def record_priced_def)
qed

text \<open>
  Claim C8, as amended. A record whose \<open>error\<close> field is truthy (for a string: not
  empty) is returned with \<open>isInvalid\<close> true and every other field as it was; its
  \<open>invalidReason\<close> is the \<open>details\<close> field where that is truthy, and the \<open>error\<close>
  value otherwise.
\<close>

theorem C8_error_validation:
  assumes "map_of kvs ''error'' = Some e" and "truthy e"
  shows "(\<forall>d. map_of kvs ''details'' = Some d \<and> truthy d \<longrightarrow>
            validate_result (JObj kvs) =
              Inr (JObj (AList.update ''invalidReason'' d
                     (AList.update ''isInvalid'' (JBool True) kvs)))
          \<and> map_of (AList.update ''invalidReason'' d
                     (AList.update ''isInvalid'' (JBool True) kvs)) =
              (map_of kvs)(''isInvalid'' \<mapsto> JBool True, ''invalidReason'' \<mapsto> d))
       \<and> (\<not> truthy_opt (map_of kvs ''details'') \<longrightarrow>
            validate_result (JObj kvs) =
              Inr (JObj (AList.update ''invalidReason'' e
                     (AList.update ''isInvalid'' (JBool True) kvs)))
          \<and> map_of (AList.update ''invalidReason'' e
                     (AList.update ''isInvalid'' (JBool True) kvs)) =
              (map_of kvs)(''isInvalid'' \<mapsto> JBool True, ''invalidReason'' \<mapsto> e))"
proof -
  have "\<not> truthy_opt (map_of kvs ''details'') \<Longrightarrow> or_else (map_of kvs ''details'') e = e"
    by (cases "map_of kvs ''details''") auto
  then show ?thesis
    using assms by (auto simp: validate_result_def mark_invalid_def map_of_mark)
qed

theorem C8_witness:
  "map_of [(''symbol'', JStr ''CCC.NS''), (''error'', JStr ''not found''),
           (''details'', JStr ''symbol delisted'')] ''error'' = Some (JStr ''not found'')
   \<and> truthy (JStr ''not found'') \<and> truthy (JStr ''symbol delisted'')
   \<and> validate_result record_delisted =
       Inr (JObj [(''symbol'', JStr ''CCC.NS''), (''error'', JStr ''not found''),
                  (''details'', JStr ''symbol delisted''), (''isInvalid'', JBool True),
                  (''invalidReason'', JStr ''symbol delisted'')])"
proof -
  have e: "map_of [(''symbol'', JStr ''CCC.NS''), (''error'', JStr ''not found''),
      (''details'', JStr ''symbol delisted'')] ''error'' = Some (JStr ''not found'')"
    by simp
  have t: "truthy (JStr ''not found'')"
    by simp
  show ?thesis
    using C8_error_validation [OF e t] e t by (simp add: record_delisted_def)
qed

text \<open>
  Claim C8 as stated fails twice. A record that carries the \<open>error\<close> field \<open>""\<close> and a
  price is returned as it is, \<open>isInvalid\<close> unset; a record with an error and the
  \<open>details\<close> field \<open>""\<close> gets the error text as its reason, not its \<open>details\<close>.
\<close>

theorem C8_counterexample:
  "opt_prop (Some record_empty_error) ''error'' = Some (JStr [])
   \<and> validate_result record_empty_error = Inr record_empty_error
   \<and> opt_prop (Some record_empty_error) ''isInvalid'' = None
   \<and> opt_prop (Some record_empty_details) ''details'' = Some (JStr [])
   \<and> validate_result record_empty_details =
       Inr (JObj [(''symbol'', JStr ''CCC.NS''), (''error'', JStr ''not found''),
                  (''details'', JStr []), (''isInvalid'', JBool True),
                  (''invalidReason'', JStr ''not found'')])"
  by (simp add: record_empty_error_def record_empty_details_def validate_result_def
      check_price_def missing_price_def mark_invalid_def)

section \<open>Response shapes\<close>

text \<open>
  Claim C9. For a body \<open>B\<close> that is an object with a \<open>results\<close> field and no \<open>error\<close>
  field, the parsed body \<open>B\<close> and the one-element array \<open>[B]\<close> are handled alike: shape
  normalisation and per-record validation of the main revision give the same outcome, and
  so does the shape normalisation of part_000.
\<close>

theorem C9_wrapped_object_and_singleton_array_agree:
  assumes "map_of kvs ''results'' = Some rs" and "map_of kvs ''error'' = None"
  shows "handle_parsed ns tk (JArr [JObj kvs]) = handle_parsed ns tk (JObj kvs)
       \<and> normalize_shape_part000 (JArr [JObj kvs]) = normalize_shape_part000 (JObj kvs)"
  using assms
  by (simp add: handle_parsed_object handle_parsed_singleton normalize_shape_part000_def)

theorem C9_witness:
  "map_of [(''results'', JArr [record_priced, record_zero_price])] ''results'' =
     Some (JArr [record_priced, record_zero_price])
   \<and> map_of [(''results'', JArr [record_priced, record_zero_price])] ''error'' = None
   \<and> handle_parsed (Number_toString rt_fallback_ok) ''AAA.NS,BBB.NS'' (JArr [body_results]) =
       handle_parsed (Number_toString rt_fallback_ok) ''AAA.NS,BBB.NS'' body_results
   \<and> handle_parsed (Number_toString rt_fallback_ok) ''AAA.NS,BBB.NS'' (JArr [body_results]) =
       Inr (JObj [(''results'', JArr [record_priced,
          JObj [(''symbol'', JStr ''BBB.NS''), (''current_price'', JNum 0),
                (''signal'', JStr ''HOLD''), (''isInvalid'', JBool True),
                (''invalidReason'',
                 JStr ''Invalid or delisted symbol - no price data available'')]])])
   \<and> normalize_shape_part000 (JArr [body_results]) = Inr body_results
   \<and> normalize_shape_part000 body_results = Inr body_results"
proof -
  have r: "map_of [(''results'', JArr [record_priced, record_zero_price])] ''results'' =
      Some (JArr [record_priced, record_zero_price])"
    by simp
  have e: "map_of [(''results'', JArr [record_priced, record_zero_price])] ''error'' = None"
    by simp
  have n: "normalize_shape_part000 body_results = Inr body_results"
    by (simp add: normalize_shape_part000_def body_results_def)
  show ?thesis
    using C9_wrapped_object_and_singleton_array_agree [OF r e,
        of "Number_toString rt_fallback_ok" "''AAA.NS,BBB.NS''"] r e n
    by (simp add: validate_body_results flip: body_results_def)
qed




section \<open>Primary and fallback endpoint\<close>

text \<open>
  Claim C5. When the attempt on the primary endpoint and the attempt on the fallback
  endpoint both fail, \<open>callN8N\<close> throws the exception of the fallback attempt, the last
  one, and has issued exactly two requests, the primary's and then the fallback's. That
  exception is the rejection of the fallback's \<open>fetch\<close>, or the \<open>HTTP status: text\<close> error
  of its non-2xx answer, or the error for its empty body, or the error for its body that
  is no JSON.
\<close>

theorem C5_both_endpoints_fail:
  assumes "attempt rt (normalized_tickers payload) (requestBody payload) primaryUrl = Inl e1"
    and "attempt rt (normalized_tickers payload) (requestBody payload) fallbackUrl = Inl e2"
  shows "callN8N rt payload =
           ([(primaryUrl, request_init (requestBody payload)),
             (fallbackUrl, request_init (requestBody payload))],
            Inl e2)
       \<and> (\<forall>err. fetch rt fallbackUrl (request_init (requestBody payload)) = Rejected err \<longrightarrow>
            e2 = err)
       \<and> (\<forall>st txt. fetch rt fallbackUrl (request_init (requestBody payload)) =
              Resolved (Response st (Inr txt)) \<longrightarrow>
            (st < 200 \<or> 299 < st \<longrightarrow>
               e2 = Error (''HTTP '' @ string_of_nat st @ '': ''
                      @ (if txt \<noteq> [] then txt else ''Failed to fetch data'')))
          \<and> (200 \<le> st \<and> st \<le> 299 \<and> trim txt = [] \<longrightarrow>
               e2 = Error
                 ''Empty response from webhook. Make sure your n8n workflow returns data.'')
          \<and> (200 \<le> st \<and> st \<le> 299 \<and> trim txt \<noteq> [] \<and> JSON_parse rt txt = None \<longrightarrow>
               e2 = Error
                 ''Invalid JSON response from webhook. Check your n8n workflow output.''))"
proof -
  have "callN8N rt payload =
      ([(primaryUrl, request_init (requestBody payload)),
        (fallbackUrl, request_init (requestBody payload))],
       Inl e2)"
    using assms by (simp add: callN8N_unfold)
  moreover have "e2 = err"
    if "fetch rt fallbackUrl (request_init (requestBody payload)) = Rejected err" for err
    using assms(2) that by (simp add: attempt_def)
  moreover have "(st < 200 \<or> 299 < st \<longrightarrow>
        e2 = Error (''HTTP '' @ string_of_nat st @ '': ''
               @ (if tx \<noteq> [] then tx else ''Failed to fetch data'')))
      \<and> (200 \<le> st \<and> st \<le> 299 \<and> trim tx = [] \<longrightarrow>
        e2 = Error ''Empty response from webhook. Make sure your n8n workflow returns data.'')
      \<and> (200 \<le> st \<and> st \<le> 299 \<and> trim tx \<noteq> [] \<and> JSON_parse rt tx = None \<longrightarrow>
        e2 = Error ''Invalid JSON response from webhook. Check your n8n workflow output.'')"
    if "fetch rt fallbackUrl (request_init (requestBody payload)) =
        Resolved (Response st (Inr tx))" for st tx
    using assms(2) that by (auto simp: attempt_def ok_def trim_Nil split: if_splits)
  ultimately show ?thesis
    by blast
qed

theorem C5_witness:
  "callN8N rt_both_fail payload_AAA_BBB =
     ([(primaryUrl, request_init (requestBody payload_AAA_BBB)),
       (fallbackUrl, request_init (requestBody payload_AAA_BBB))],
      Inl (Error ''HTTP 500: Internal Server Error''))
   \<and> attempt rt_both_fail (normalized_tickers payload_AAA_BBB) (requestBody payload_AAA_BBB)
       primaryUrl = Inl (FetchError ''Failed to fetch'')
   \<and> callN8N rt_fallback_unreachable payload_AAA_BBB =
       ([(primaryUrl, request_init (requestBody payload_AAA_BBB)),
         (fallbackUrl, request_init (requestBody payload_AAA_BBB))],
        Inl (FetchError ''Failed to fetch''))
   \<and> attempt rt_fallback_unreachable (normalized_tickers payload_AAA_BBB)
       (requestBody payload_AAA_BBB) primaryUrl = Inl (Error ''HTTP 404: Not Found'')
   \<and> callN8N rt_fallback_empty payload_AAA_BBB =
       ([(primaryUrl, request_init (requestBody payload_AAA_BBB)),
         (fallbackUrl, request_init (requestBody payload_AAA_BBB))],
        Inl (Error ''Empty response from webhook. Make sure your n8n workflow returns data.''))
   \<and> attempt rt_fallback_empty (normalized_tickers payload_AAA_BBB)
       (requestBody payload_AAA_BBB) primaryUrl =
       Inl (Error ''Invalid JSON response from webhook. Check your n8n workflow output.'')
   \<and> callN8N rt_fallback_malformed payload_AAA_BBB =
       ([(primaryUrl, request_init (requestBody payload_AAA_BBB)),
         (fallbackUrl, request_init (requestBody payload_AAA_BBB))],
        Inl (Error ''Invalid JSON response from webhook. Check your n8n workflow output.''))
   \<and> attempt rt_fallback_malformed (normalized_tickers payload_AAA_BBB)
       (requestBody payload_AAA_BBB) primaryUrl =
       Inl (Error ''Empty response from webhook. Make sure your n8n workflow returns data.'')"
proof -
  let ?tk = "normalized_tickers payload_AAA_BBB" and ?rb = "requestBody payload_AAA_BBB"
  have h: "trim ''<html>'' \<noteq> []" and w: "trim ''  '' = []"
    by (simp_all add: trim_def isWhiteSpace_def)
  have p1: "attempt rt_both_fail ?tk ?rb primaryUrl = Inl (FetchError ''Failed to fetch'')"
    by (simp add: attempt_def rt_both_fail_def fetch_example)
  have f1: "attempt rt_both_fail ?tk ?rb fallbackUrl =
      Inl (Error ''HTTP 500: Internal Server Error'')"
    using urls_distinct
    by (simp add: attempt_def rt_both_fail_def fetch_example ok_def string_of_nat_500)
  have p2: "attempt rt_fallback_unreachable ?tk ?rb primaryUrl =
      Inl (Error ''HTTP 404: Not Found'')"
    by (simp add: attempt_def rt_fallback_unreachable_def fetch_example ok_def
        string_of_nat_404)
  have f2: "attempt rt_fallback_unreachable ?tk ?rb fallbackUrl =
      Inl (FetchError ''Failed to fetch'')"
    using urls_distinct
    by (simp add: attempt_def rt_fallback_unreachable_def fetch_example)
  have p3: "attempt rt_fallback_empty ?tk ?rb primaryUrl =
      Inl (Error ''Invalid JSON response from webhook. Check your n8n workflow output.'')"
    using h by (simp add: attempt_def rt_fallback_empty_def fetch_example parse_example ok_def)
  have f3: "attempt rt_fallback_empty ?tk ?rb fallbackUrl =
      Inl (Error ''Empty response from webhook. Make sure your n8n workflow returns data.'')"
    using urls_distinct w
    by (simp add: attempt_def rt_fallback_empty_def fetch_example ok_def)
  have p4: "attempt rt_fallback_malformed ?tk ?rb primaryUrl =
      Inl (Error ''Empty response from webhook. Make sure your n8n workflow returns data.'')"
    by (simp add: attempt_def rt_fallback_malformed_def fetch_example ok_def)
  have f4: "attempt rt_fallback_malformed ?tk ?rb fallbackUrl =
      Inl (Error ''Invalid JSON response from webhook. Check your n8n workflow output.'')"
    using urls_distinct h
    by (simp add: attempt_def rt_fallback_malformed_def fetch_example parse_example ok_def)
  show ?thesis
    using C5_both_endpoints_fail [OF p1 f1] C5_both_endpoints_fail [OF p2 f2]
      C5_both_endpoints_fail [OF p3 f3] C5_both_endpoints_fail [OF p4 f4] p1 p2 p3 p4
    by blast
qed



section \<open>The error array\<close>

text \<open>
  Claim C1, as amended. When the endpoint that is reached (the primary, or the fallback
  after a failed primary attempt) answers with a 2xx status and a body that parses to an
  array whose first element has a truthy \<open>error\<close> field that the template literal can
  convert to a string, then for the ticker input \<open>AAA,BBB\<close> and the exchange \<open>NS\<close> the
  result of \<open>callN8N\<close> holds exactly two records, for the normalised symbols \<open>AAA.NS\<close>
  and \<open>BBB.NS\<close> in this order, each with price 0, signal \<open>SELL/AVOID\<close>, confidence
  \<open>0%\<close>, \<open>isInvalid\<close> true and the reason \<open>Invalid ticker: \<close> followed by that string. A
  string converts to itself, so for an error that is a string the reason ends with the
  reported error text.
\<close>

theorem C1_error_array_yields_invalid_records:
  assumes "url = primaryUrl \<or>
           url = fallbackUrl \<and>
           attempt rt (normalized_tickers payload) (requestBody payload) primaryUrl = Inl e1"
    and "fetch rt url (request_init (requestBody payload)) = Resolved (Response st (Inr txt))"
    and "200 \<le> st" and "st \<le> 299" and "trim txt \<noteq> []"
    and "JSON_parse rt txt = Some (JArr (x # xs))"
    and "opt_prop (Some x) ''error'' = Some e" and "truthy e"
    and "tickers payload = ''AAA,BBB''" and "exchange payload = ''NS''"
    and "toString (Number_toString rt) e = Inr msg"
  shows "snd (callN8N rt payload) =
           Inr (JObj [(''results'', JArr
             [JObj [(''symbol'', JStr ''AAA.NS''), (''current_price'', JNum 0),
                    (''signal'', JStr ''SELL/AVOID''), (''confidence'', JStr ''0%''),
                    (''entry_price'', JNum 0), (''target_price'', JNum 0),
                    (''stop_loss'', JNum 0), (''isInvalid'', JBool True),
                    (''invalidReason'', JStr (''Invalid ticker: '' @ msg))],
              JObj [(''symbol'', JStr ''BBB.NS''), (''current_price'', JNum 0),
                    (''signal'', JStr ''SELL/AVOID''), (''confidence'', JStr ''0%''),
                    (''entry_price'', JNum 0), (''target_price'', JNum 0),
                    (''stop_loss'', JNum 0), (''isInvalid'', JBool True),
                    (''invalidReason'', JStr (''Invalid ticker: '' @ msg))]])])
       \<and> (\<forall>s. e = JStr s \<longrightarrow> msg = s)"
proof -
  have a: "attempt rt (normalized_tickers payload) (requestBody payload) url =
      handle_parsed (Number_toString rt) (normalized_tickers payload) (JArr (x # xs))"
    using assms(2-6) by (rule attempt_ok)
  have s: "split_on CHR '','' (normalized_tickers payload) = [''AAA.NS'', ''BBB.NS'']"
    using assms(9,10) by (simp add: normalized_AAA_BBB)
  have t: "trim ''AAA.NS'' = ''AAA.NS''" "trim ''BBB.NS'' = ''BBB.NS''"
    by (simp_all add: trim_def isWhiteSpace_def)
  have r: "attempt rt (normalized_tickers payload) (requestBody payload) url =
      Inr (JObj [(''results'', JArr
        [invalid_ticker_record (''Invalid ticker: '' @ msg) ''AAA.NS'',
         invalid_ticker_record (''Invalid ticker: '' @ msg) ''BBB.NS''])])"
    using handle_parsed_error_array [OF assms(7,8,11)] by (simp add: a s)
  from assms(1) have "snd (callN8N rt payload) =
      Inr (JObj [(''results'', JArr
        [invalid_ticker_record (''Invalid ticker: '' @ msg) ''AAA.NS'',
         invalid_ticker_record (''Invalid ticker: '' @ msg) ''BBB.NS''])])"
  proof
    assume "url = primaryUrl"
    with r show ?thesis by (simp add: callN8N_unfold)
  next
    assume "url = fallbackUrl \<and>
      attempt rt (normalized_tickers payload) (requestBody payload) primaryUrl = Inl e1"
    with r show ?thesis by (simp add: callN8N_unfold)
  qed
  moreover have "\<forall>s. e = JStr s \<longrightarrow> msg = s"
    using assms(11) by auto
  ultimately show ?thesis
    by (simp add: invalid_ticker_record_def t)
qed

theorem C1_witness:
  "fetch rt_error_array primaryUrl (request_init (requestBody payload_AAA_BBB)) =
     Resolved (Response 200 (Inr text_error_array))
   \<and> fetch rt_error_array_fallback fallbackUrl (request_init (requestBody payload_AAA_BBB)) =
     Resolved (Response 200 (Inr text_error_array))
   \<and> attempt rt_error_array_fallback (normalized_tickers payload_AAA_BBB)
       (requestBody payload_AAA_BBB) primaryUrl = Inl (FetchError ''Failed to fetch'')
   \<and> trim text_error_array \<noteq> []
   \<and> JSON_parse rt_error_array text_error_array =
       Some (JArr [JObj [(''error'', JStr ''bad ticker'')]])
   \<and> JSON_parse rt_error_array_fallback text_error_array =
       Some (JArr [JObj [(''error'', JStr ''bad ticker'')]])
   \<and> tickers payload_AAA_BBB = ''AAA,BBB'' \<and> exchange payload_AAA_BBB = ''NS''
   \<and> toString (Number_toString rt_error_array) (JStr ''bad ticker'') = Inr ''bad ticker''
   \<and> snd (callN8N rt_error_array payload_AAA_BBB) =
           Inr (JObj [(''results'', JArr
             [JObj [(''symbol'', JStr ''AAA.NS''), (''current_price'', JNum 0),
                    (''signal'', JStr ''SELL/AVOID''), (''confidence'', JStr ''0%''),
                    (''entry_price'', JNum 0), (''target_price'', JNum 0),
                    (''stop_loss'', JNum 0), (''isInvalid'', JBool True),
                    (''invalidReason'', JStr ''Invalid ticker: bad ticker'')],
              JObj [(''symbol'', JStr ''BBB.NS''), (''current_price'', JNum 0),
                    (''signal'', JStr ''SELL/AVOID''), (''confidence'', JStr ''0%''),
                    (''entry_price'', JNum 0), (''target_price'', JNum 0),
                    (''stop_loss'', JNum 0), (''isInvalid'', JBool True),
                    (''invalidReason'', JStr ''Invalid ticker: bad ticker'')]])])
   \<and> snd (callN8N rt_error_array_fallback payload_AAA_BBB) =
       snd (callN8N rt_error_array payload_AAA_BBB)"
proof -
  let ?tk = "normalized_tickers payload_AAA_BBB" and ?rb = "requestBody payload_AAA_BBB"
  have s1: "(200::nat) \<le> 200" and s2: "(200::nat) \<le> 299"
    by simp_all
  have e: "opt_prop (Some (JObj [(''error'', JStr ''bad ticker'')])) ''error'' =
      Some (JStr ''bad ticker'')"
    by simp
  have t: "truthy (JStr ''bad ticker'')"
    by simp
  have m: "toString ns (JStr ''bad ticker'') = Inr ''bad ticker''" for ns
    by simp
  have p1: "tickers payload_AAA_BBB = ''AAA,BBB''" and p2: "exchange payload_AAA_BBB = ''NS''"
    by (simp_all add: payload_AAA_BBB_def)
  have u1: "primaryUrl = primaryUrl \<or>
      primaryUrl = fallbackUrl \<and> attempt rt_error_array ?tk ?rb primaryUrl = Inl e1" for e1
    by simp
  have g: "fetch rt_error_array_fallback fallbackUrl req =
      Resolved (Response 200 (Inr text_error_array))" for req
    by (simp add: rt_error_array_fallback_def fetch_example)
  have k: "JSON_parse rt_error_array_fallback text_error_array =
      Some (JArr [JObj [(''error'', JStr ''bad ticker'')]])"
    by (simp add: rt_error_array_fallback_def parse_example)
  have f: "attempt rt_error_array_fallback ?tk ?rb primaryUrl =
      Inl (FetchError ''Failed to fetch'')"
    using urls_distinct by (simp add: attempt_def rt_error_array_fallback_def fetch_example)
  have u2: "fallbackUrl = primaryUrl \<or>
      fallbackUrl = fallbackUrl \<and>
      attempt rt_error_array_fallback ?tk ?rb primaryUrl = Inl (FetchError ''Failed to fetch'')"
    using f by simp
  show ?thesis
    using C1_error_array_yields_invalid_records [OF u1 fetch_rt_error_array s1 s2
        trim_text_error_array parse_rt_error_array e t p1 p2 m]
      C1_error_array_yields_invalid_records [OF u2 g s1 s2 trim_text_error_array k e t p1 p2 m]
      fetch_rt_error_array g f k trim_text_error_array parse_rt_error_array p1 p2
    by simp
qed

text \<open>
  Claim C1 as stated fails: for the body \<open>[{"error": "bad ticker"}]\<close> the two records
  carry the symbols \<open>AAA.NS\<close> and \<open>BBB.NS\<close>, not \<open>AAA\<close> and \<open>BBB\<close>. For the body
  \<open>[{"error": ""}]\<close>, whose first element carries an \<open>error\<close> field that is not truthy,
  no record is synthesised: the element itself is returned. And for the body
  \<open>[{"error": {"toString": 1}}]\<close> the template literal throws: the attempt fails, and
  what \<open>callN8N\<close> returns is the answer of the fallback.
\<close>

theorem C1_counterexample:
  "fetch rt_error_array primaryUrl (request_init (requestBody payload_AAA_BBB)) =
     Resolved (Response 200 (Inr text_error_array))
   \<and> JSON_parse rt_error_array text_error_array =
       Some (JArr [JObj [(''error'', JStr ''bad ticker'')]])
   \<and> tickers payload_AAA_BBB = ''AAA,BBB'' \<and> exchange payload_AAA_BBB = ''NS''
   \<and> snd (callN8N rt_error_array payload_AAA_BBB) =
       Inr (JObj [(''results'', JArr
         [invalid_ticker_record ''Invalid ticker: bad ticker'' ''AAA.NS'',
          invalid_ticker_record ''Invalid ticker: bad ticker'' ''BBB.NS''])])
   \<and> opt_prop (Some (invalid_ticker_record ''Invalid ticker: bad ticker'' ''AAA.NS''))
         ''symbol'' = Some (JStr ''AAA.NS'')
   \<and> opt_prop (Some (invalid_ticker_record ''Invalid ticker: bad ticker'' ''BBB.NS''))
         ''symbol'' = Some (JStr ''BBB.NS'')
   \<and> JStr ''AAA.NS'' \<noteq> JStr ''AAA'' \<and> JStr ''BBB.NS'' \<noteq> JStr ''BBB''
   \<and> fetch rt_empty_error_array primaryUrl (request_init (requestBody payload_AAA_BBB)) =
       Resolved (Response 200 (Inr text_empty_error_array))
   \<and> JSON_parse rt_empty_error_array text_empty_error_array =
       Some (JArr [JObj [(''error'', JStr [])]])
   \<and> snd (callN8N rt_empty_error_array payload_AAA_BBB) = Inr (JObj [(''error'', JStr [])])
   \<and> fetch rt_unprintable_error primaryUrl (request_init (requestBody payload_AAA_BBB)) =
       Resolved (Response 200 (Inr text_unprintable_error))
   \<and> JSON_parse rt_unprintable_error text_unprintable_error =
       Some (JArr [JObj [(''error'', JObj [(''toString'', JNum 1)])]])
   \<and> truthy (JObj [(''toString'', JNum 1)])
   \<and> attempt rt_unprintable_error (normalized_tickers payload_AAA_BBB)
       (requestBody payload_AAA_BBB) primaryUrl = Inl TypeError
   \<and> snd (callN8N rt_unprintable_error payload_AAA_BBB) =
       Inr (JObj [(''results'', JArr [record_priced,
          JObj [(''symbol'', JStr ''BBB.NS''), (''current_price'', JNum 0),
                (''signal'', JStr ''HOLD''), (''isInvalid'', JBool True),
                (''invalidReason'',
                 JStr ''Invalid or delisted symbol - no price data available'')]])])"
proof -
  have m: "fetch rt_empty_error_array primaryUrl req =
      Resolved (Response 200 (Inr text_empty_error_array))" for req
    by (simp add: rt_empty_error_array_def fetch_example)
  have q: "JSON_parse rt_empty_error_array text_empty_error_array =
      Some (JArr [JObj [(''error'', JStr [])]])"
    by (simp add: rt_empty_error_array_def parse_example)
  have v: "fetch rt_unprintable_error primaryUrl req =
      Resolved (Response 200 (Inr text_unprintable_error))" for req
    by (simp add: rt_unprintable_error_def fetch_example)
  have w: "JSON_parse rt_unprintable_error text_unprintable_error =
      Some (JArr [JObj [(''error'', JObj [(''toString'', JNum 1)])]])"
    by (simp add: rt_unprintable_error_def parse_example)
  have n: "normalized_tickers payload_AAA_BBB = ''AAA.NS,BBB.NS''"
    by (simp add: payload_AAA_BBB_def normalized_tickers_def normalize_ticker_def trim_def
        isWhiteSpace_def toUpperCase_def toUpperCase_char_def)
  have s1: "(200::nat) \<le> 200" and s2: "(200::nat) \<le> 299"
    by simp_all
  have e: "opt_prop (Some (JObj [(''error'', JStr ''bad ticker'')])) ''error'' =
      Some (JStr ''bad ticker'')"
    by simp
  have a: "attempt rt_error_array ''AAA.NS,BBB.NS'' (requestBody payload_AAA_BBB) primaryUrl =
      Inr (JObj [(''results'', JArr
        [invalid_ticker_record ''Invalid ticker: bad ticker'' ''AAA.NS'',
         invalid_ticker_record ''Invalid ticker: bad ticker'' ''BBB.NS''])])"
    using attempt_ok [OF fetch_rt_error_array s1 s2 trim_text_error_array parse_rt_error_array,
        where tk = "''AAA.NS,BBB.NS''"]
      handle_parsed_error_array [OF e, where ns = "Number_toString rt_error_array"
        and msg = "''bad ticker''" and tk = "''AAA.NS,BBB.NS''" and xs = "[]"]
    by simp
  have c: "snd (callN8N rt_error_array payload_AAA_BBB) =
      Inr (JObj [(''results'', JArr
        [invalid_ticker_record ''Invalid ticker: bad ticker'' ''AAA.NS'',
         invalid_ticker_record ''Invalid ticker: bad ticker'' ''BBB.NS''])])"
    by (simp add: callN8N_unfold n a)
  have p: "tickers payload_AAA_BBB = ''AAA,BBB''" "exchange payload_AAA_BBB = ''NS''"
    by (simp_all add: payload_AAA_BBB_def)
  have y: "opt_prop (Some (invalid_ticker_record reason ''AAA.NS'')) ''symbol'' =
      Some (JStr ''AAA.NS'')"
    "opt_prop (Some (invalid_ticker_record reason ''BBB.NS'')) ''symbol'' =
      Some (JStr ''BBB.NS'')" for reason
    by (simp_all add: invalid_ticker_record_def trim_def isWhiteSpace_def)
  show ?thesis
    using callN8N_unprintable_error [of payload_AAA_BBB]
    by (simp add: c p y m q v w fetch_rt_error_array parse_rt_error_array
        callN8N_empty_error_array)
qed

text \<open>
  Claim C10, as amended. A 2xx answer whose body parses to an array with a truthy
  \<open>error\<close> in its first element, one that the template literal can convert to a string,
  is a success. When the primary endpoint gives it, \<open>callN8N\<close> returns the synthesised
  records after one request and never calls the fallback; when the fallback gives it
  after a failed primary attempt, \<open>callN8N\<close> returns the synthesised records after the two
  requests. The fallback is called exactly when the primary attempt throws, which it does
  for a rejected \<open>fetch\<close>, a status outside 200 to 299, a body that cannot be read, is
  empty or is no JSON, and also when handling the parsed body throws a TypeError: the
  error of an error array cannot be converted to a string, or there is no error array and
  the result is \<open>undefined\<close> or \<open>null\<close>, or its truthy \<open>results\<close> is no array or holds a
  \<open>null\<close> record.
\<close>

theorem C10_error_array_is_success:
  "(fetch rt primaryUrl (request_init (requestBody payload)) = Resolved (Response st (Inr btext))
      \<and> 200 \<le> st \<and> st \<le> 299 \<and> trim btext \<noteq> []
      \<and> JSON_parse rt btext = Some (JArr (x # xs))
      \<and> opt_prop (Some x) ''error'' = Some e \<and> truthy e
      \<and> toString (Number_toString rt) e = Inr msg \<longrightarrow>
    callN8N rt payload =
      ([(primaryUrl, request_init (requestBody payload))],
       Inr (JObj [(''results'',
              JArr (map (invalid_ticker_record (''Invalid ticker: '' @ msg))
                     (split_on CHR '','' (normalized_tickers payload))))])))
   \<and> (attempt rt (normalized_tickers payload) (requestBody payload) primaryUrl = Inl perr
      \<and> fetch rt fallbackUrl (request_init (requestBody payload)) =
          Resolved (Response st (Inr btext))
      \<and> 200 \<le> st \<and> st \<le> 299 \<and> trim btext \<noteq> []
      \<and> JSON_parse rt btext = Some (JArr (x # xs))
      \<and> opt_prop (Some x) ''error'' = Some e \<and> truthy e
      \<and> toString (Number_toString rt) e = Inr msg \<longrightarrow>
    callN8N rt payload =
      ([(primaryUrl, request_init (requestBody payload)),
        (fallbackUrl, request_init (requestBody payload))],
       Inr (JObj [(''results'',
              JArr (map (invalid_ticker_record (''Invalid ticker: '' @ msg))
                     (split_on CHR '','' (normalized_tickers payload))))])))
   \<and> map fst (fst (callN8N rt payload)) =
       (if isl (attempt rt (normalized_tickers payload) (requestBody payload) primaryUrl)
        then [primaryUrl, fallbackUrl] else [primaryUrl])
   \<and> (isl (attempt rt (normalized_tickers payload) (requestBody payload) primaryUrl) \<longleftrightarrow>
        (case fetch rt primaryUrl (request_init (requestBody payload)) of
           Rejected err \<Rightarrow> True
         | Resolved res \<Rightarrow>
             \<not> ok res \<or>
             (case res_text res of
                Inl err \<Rightarrow> True
              | Inr btext \<Rightarrow>
                  trim btext = [] \<or>
                  (case JSON_parse rt btext of
                     None \<Rightarrow> True
                   | Some parsed \<Rightarrow>
                       handle_parsed (Number_toString rt) (normalized_tickers payload) parsed =
                         Inl TypeError))))
   \<and> (handle_parsed (Number_toString rt) (normalized_tickers payload) parsed = Inl TypeError \<longleftrightarrow>
        (\<exists>err. error_array parsed = Some err \<and>
           toString (Number_toString rt) err = Inl TypeError) \<or>
        error_array parsed = None \<and>
        (extract_result parsed = None \<or> extract_result parsed = Some JNull \<or>
         (\<exists>kvs v. extract_result parsed = Some (JObj kvs) \<and> map_of kvs ''results'' = Some v
            \<and> truthy v \<and> (\<forall>rs. v = JArr rs \<longrightarrow> JNull \<in> set rs))))
   \<and> (toString (Number_toString rt) (JObj kvs) = Inl TypeError \<longleftrightarrow>
        map_of kvs ''toString'' \<noteq> None)
   \<and> (toString (Number_toString rt) (JArr vs) = Inl TypeError \<longleftrightarrow>
        (\<exists>v. v \<in> set vs \<and> toString (Number_toString rt) v = Inl TypeError))
   \<and> toString (Number_toString rt) (JStr str) = Inr str
   \<and> toString (Number_toString rt) (JNum n) = Inr (Number_toString rt n)
   \<and> toString (Number_toString rt) (JBool b) = Inr (if b then ''true'' else ''false'')"
proof -
  let ?ns = "Number_toString rt" and ?tk = "normalized_tickers payload"
    and ?rb = "requestBody payload"
  have one: "callN8N rt payload =
      ([(primaryUrl, request_init ?rb)],
       Inr (JObj [(''results'',
              JArr (map (invalid_ticker_record (''Invalid ticker: '' @ msg))
                     (split_on CHR '','' ?tk)))]))"
    if f: "fetch rt primaryUrl (request_init ?rb) = Resolved (Response st (Inr btext))"
      and s: "200 \<le> st" "st \<le> 299" and t: "trim btext \<noteq> []"
      and j: "JSON_parse rt btext = Some (JArr (x # xs))"
      and e: "opt_prop (Some x) ''error'' = Some e" "truthy e" "toString ?ns e = Inr msg"
  proof -
    have "attempt rt ?tk ?rb primaryUrl = handle_parsed ?ns ?tk (JArr (x # xs))"
      using f s t j by (rule attempt_ok)
    then show ?thesis
      by (simp add: callN8N_unfold handle_parsed_error_array [OF e])
  qed
  have one': "callN8N rt payload =
      ([(primaryUrl, request_init ?rb), (fallbackUrl, request_init ?rb)],
       Inr (JObj [(''results'',
              JArr (map (invalid_ticker_record (''Invalid ticker: '' @ msg))
                     (split_on CHR '','' ?tk)))]))"
    if p: "attempt rt ?tk ?rb primaryUrl = Inl perr"
      and f: "fetch rt fallbackUrl (request_init ?rb) = Resolved (Response st (Inr btext))"
      and s: "200 \<le> st" "st \<le> 299" and t: "trim btext \<noteq> []"
      and j: "JSON_parse rt btext = Some (JArr (x # xs))"
      and e: "opt_prop (Some x) ''error'' = Some e" "truthy e" "toString ?ns e = Inr msg"
  proof -
    have "attempt rt ?tk ?rb fallbackUrl = handle_parsed ?ns ?tk (JArr (x # xs))"
      using f s t j by (rule attempt_ok)
    with p show ?thesis
      by (simp add: callN8N_unfold handle_parsed_error_array [OF e])
  qed
  have two: "map fst (fst (callN8N rt payload)) =
       (if isl (attempt rt ?tk ?rb primaryUrl) then [primaryUrl, fallbackUrl] else [primaryUrl])"
    by (simp add: callN8N_unfold split: sum.splits)
  have three: "isl (attempt rt ?tk ?rb primaryUrl) \<longleftrightarrow>
        (case fetch rt primaryUrl (request_init ?rb) of
           Rejected err \<Rightarrow> True
         | Resolved res \<Rightarrow>
             \<not> ok res \<or>
             (case res_text res of
                Inl err \<Rightarrow> True
              | Inr btext \<Rightarrow>
                  trim btext = [] \<or>
                  (case JSON_parse rt btext of
                     None \<Rightarrow> True
                   | Some parsed \<Rightarrow> handle_parsed ?ns ?tk parsed = Inl TypeError)))"
    by (rule attempt_throws_iff)
  have four: "handle_parsed ?ns ?tk parsed = Inl TypeError \<longleftrightarrow>
        (\<exists>err. error_array parsed = Some err \<and> toString ?ns err = Inl TypeError) \<or>
        error_array parsed = None \<and>
        (extract_result parsed = None \<or> extract_result parsed = Some JNull \<or>
         (\<exists>kvs v. extract_result parsed = Some (JObj kvs) \<and> map_of kvs ''results'' = Some v
            \<and> truthy v \<and> (\<forall>rs. v = JArr rs \<longrightarrow> JNull \<in> set rs)))"
  proof (cases "error_array parsed")
    case None
    then show ?thesis
      by (simp add: handle_parsed_def validate_results_throws_iff)
  next
    case (Some err)
    then show ?thesis
      using handle_parsed_error_array_cases [OF Some, of ?ns ?tk]
      by (auto split: sum.splits dest: toString_error)
  qed
  have five: "toString ?ns (JObj kvs) = Inl TypeError \<longleftrightarrow> map_of kvs ''toString'' \<noteq> None"
    by simp
  have six: "toString ?ns (JArr vs) = Inl TypeError \<longleftrightarrow>
      (\<exists>v. v \<in> set vs \<and> toString ?ns v = Inl TypeError)"
    by (rule toString_array_throws_iff)
  show ?thesis
    by (intro conjI impI) (use one one' two three four five six in \<open>(blast | simp)+\<close>)
qed

theorem C10_witness:
  "fetch rt_error_array primaryUrl (request_init (requestBody payload_AAA_BBB)) =
     Resolved (Response 200 (Inr text_error_array))
   \<and> trim text_error_array \<noteq> []
   \<and> JSON_parse rt_error_array text_error_array =
       Some (JArr [JObj [(''error'', JStr ''bad ticker'')]])
   \<and> toString (Number_toString rt_error_array) (JStr ''bad ticker'') = Inr ''bad ticker''
   \<and> callN8N rt_error_array payload_AAA_BBB =
       ([(primaryUrl, request_init (requestBody payload_AAA_BBB))],
        Inr (JObj [(''results'', JArr
          [invalid_ticker_record ''Invalid ticker: bad ticker'' ''AAA.NS'',
           invalid_ticker_record ''Invalid ticker: bad ticker'' ''BBB.NS''])]))
   \<and> map fst (fst (callN8N rt_error_array payload_AAA_BBB)) = [primaryUrl]
   \<and> \<not> isl (attempt rt_error_array (normalized_tickers payload_AAA_BBB)
           (requestBody payload_AAA_BBB) primaryUrl)
   \<and> attempt rt_error_array_fallback (normalized_tickers payload_AAA_BBB)
       (requestBody payload_AAA_BBB) primaryUrl = Inl (FetchError ''Failed to fetch'')
   \<and> fetch rt_error_array_fallback fallbackUrl (request_init (requestBody payload_AAA_BBB)) =
       Resolved (Response 200 (Inr text_error_array))
   \<and> JSON_parse rt_error_array_fallback text_error_array =
       Some (JArr [JObj [(''error'', JStr ''bad ticker'')]])
   \<and> callN8N rt_error_array_fallback payload_AAA_BBB =
       ([(primaryUrl, request_init (requestBody payload_AAA_BBB)),
         (fallbackUrl, request_init (requestBody payload_AAA_BBB))],
        Inr (JObj [(''results'', JArr
          [invalid_ticker_record ''Invalid ticker: bad ticker'' ''AAA.NS'',
           invalid_ticker_record ''Invalid ticker: bad ticker'' ''BBB.NS''])]))"
proof -
  let ?tk = "normalized_tickers payload_AAA_BBB" and ?rb = "requestBody payload_AAA_BBB"
  have e: "opt_prop (Some (JObj [(''error'', JStr ''bad ticker'')])) ''error'' =
      Some (JStr ''bad ticker'')"
    by simp
  have t: "truthy (JStr ''bad ticker'')"
    by simp
  have m: "toString ns (JStr ''bad ticker'') = Inr ''bad ticker''" for ns
    by simp
  have s: "split_on CHR '','' ?tk = [''AAA.NS'', ''BBB.NS'']"
    by (simp add: normalized_AAA_BBB payload_AAA_BBB_def)
  have c: "callN8N rt_error_array payload_AAA_BBB =
       ([(primaryUrl, request_init ?rb)],
        Inr (JObj [(''results'', JArr
          [invalid_ticker_record ''Invalid ticker: bad ticker'' ''AAA.NS'',
           invalid_ticker_record ''Invalid ticker: bad ticker'' ''BBB.NS''])]))"
    using C10_error_array_is_success [where rt = rt_error_array and payload = payload_AAA_BBB
        and st = 200 and btext = text_error_array
        and x = "JObj [(''error'', JStr ''bad ticker'')]"
        and xs = "[]" and e = "JStr ''bad ticker''" and msg = "''bad ticker''"]
      fetch_rt_error_array trim_text_error_array parse_rt_error_array e t m
    by (simp add: s)
  have i: "\<not> isl (attempt rt_error_array ?tk ?rb primaryUrl)"
    using c by (simp add: callN8N_unfold split: sum.splits)
  have g: "fetch rt_error_array_fallback fallbackUrl req =
      Resolved (Response 200 (Inr text_error_array))" for req
    by (simp add: rt_error_array_fallback_def fetch_example)
  have k: "JSON_parse rt_error_array_fallback text_error_array =
      Some (JArr [JObj [(''error'', JStr ''bad ticker'')]])"
    by (simp add: rt_error_array_fallback_def parse_example)
  have f: "attempt rt_error_array_fallback ?tk ?rb primaryUrl =
      Inl (FetchError ''Failed to fetch'')"
    using urls_distinct by (simp add: attempt_def rt_error_array_fallback_def fetch_example)
  have d: "callN8N rt_error_array_fallback payload_AAA_BBB =
       ([(primaryUrl, request_init ?rb), (fallbackUrl, request_init ?rb)],
        Inr (JObj [(''results'', JArr
          [invalid_ticker_record ''Invalid ticker: bad ticker'' ''AAA.NS'',
           invalid_ticker_record ''Invalid ticker: bad ticker'' ''BBB.NS''])]))"
    using C10_error_array_is_success [where rt = rt_error_array_fallback
        and payload = payload_AAA_BBB and perr = "FetchError ''Failed to fetch''"
        and st = 200 and btext = text_error_array
        and x = "JObj [(''error'', JStr ''bad ticker'')]"
        and xs = "[]" and e = "JStr ''bad ticker''" and msg = "''bad ticker''"]
      f g trim_text_error_array k e t m
    by (simp add: s)
  show ?thesis
    using c d i f g k m fetch_rt_error_array trim_text_error_array parse_rt_error_array
    by simp
qed

text \<open>
  Claim C10 as stated fails in its last part: the primary endpoint answers 200 with the
  body \<open>null\<close>, which is read, is not empty and parses; reading \<open>results\<close> of \<open>null\<close>
  throws, and the fallback is called. For the body \<open>[{"error": {"toString": 1}}]\<close> the
  template literal throws, and the fallback is called as well. And the body
  \<open>[{"error": ""}]\<close> is a success without a fallback call, but what is returned is its
  first element, no synthesised record.
\<close>

theorem C10_counterexample:
  "fetch rt_null_body primaryUrl (request_init (requestBody payload_AAA_BBB)) =
     Resolved (Response 200 (Inr ''null''))
   \<and> ok (Response 200 (Inr ''null''))
   \<and> trim ''null'' = ''null''
   \<and> JSON_parse rt_null_body ''null'' = Some JNull
   \<and> attempt rt_null_body (normalized_tickers payload_AAA_BBB) (requestBody payload_AAA_BBB)
       primaryUrl = Inl TypeError
   \<and> map fst (fst (callN8N rt_null_body payload_AAA_BBB)) = [primaryUrl, fallbackUrl]
   \<and> snd (callN8N rt_null_body payload_AAA_BBB) =
       Inr (JObj [(''results'', JArr [record_priced,
          JObj [(''symbol'', JStr ''BBB.NS''), (''current_price'', JNum 0),
                (''signal'', JStr ''HOLD''), (''isInvalid'', JBool True),
                (''invalidReason'',
                 JStr ''Invalid or delisted symbol - no price data available'')]])])
   \<and> fetch rt_unprintable_error primaryUrl (request_init (requestBody payload_AAA_BBB)) =
       Resolved (Response 200 (Inr text_unprintable_error))
   \<and> JSON_parse rt_unprintable_error text_unprintable_error =
       Some (JArr [JObj [(''error'', JObj [(''toString'', JNum 1)])]])
   \<and> truthy (JObj [(''toString'', JNum 1)])
   \<and> attempt rt_unprintable_error (normalized_tickers payload_AAA_BBB)
       (requestBody payload_AAA_BBB) primaryUrl = Inl TypeError
   \<and> map fst (fst (callN8N rt_unprintable_error payload_AAA_BBB)) = [primaryUrl, fallbackUrl]
   \<and> fetch rt_empty_error_array primaryUrl (request_init (requestBody payload_AAA_BBB)) =
       Resolved (Response 200 (Inr text_empty_error_array))
   \<and> JSON_parse rt_empty_error_array text_empty_error_array =
       Some (JArr [JObj [(''error'', JStr [])]])
   \<and> callN8N rt_empty_error_array payload_AAA_BBB =
       ([(primaryUrl, request_init (requestBody payload_AAA_BBB))],
        Inr (JObj [(''error'', JStr [])]))"
proof -
  have m: "fetch rt_empty_error_array primaryUrl req =
      Resolved (Response 200 (Inr text_empty_error_array))" for req
    by (simp add: rt_empty_error_array_def fetch_example)
  have q: "JSON_parse rt_empty_error_array text_empty_error_array =
      Some (JArr [JObj [(''error'', JStr [])]])"
    by (simp add: rt_empty_error_array_def parse_example)
  have v: "fetch rt_unprintable_error primaryUrl req =
      Resolved (Response 200 (Inr text_unprintable_error))" for req
    by (simp add: rt_unprintable_error_def fetch_example)
  have w: "JSON_parse rt_unprintable_error text_unprintable_error =
      Some (JArr [JObj [(''error'', JObj [(''toString'', JNum 1)])]])"
    by (simp add: rt_unprintable_error_def parse_example)
  have f: "fetch rt_null_body primaryUrl req = Resolved (Response 200 (Inr ''null''))" for req
    by (simp add: rt_null_body_def fetch_example)
  have g: "fetch rt_null_body fallbackUrl req = Resolved (Response 200 (Inr text_results))" for req
    using urls_distinct by (simp add: rt_null_body_def fetch_example)
  have t: "trim ''null'' = ''null''"
    by (simp add: trim_def isWhiteSpace_def)
  have j: "JSON_parse rt_null_body ''null'' = Some JNull"
    by (simp add: rt_null_body_def parse_example)
  have k: "JSON_parse rt_null_body text_results = Some body_results"
    by (simp add: rt_null_body_def parse_example text_results_def)
  have a: "attempt rt_null_body tk rb primaryUrl = Inl TypeError" for tk rb
    by (simp add: attempt_def f ok_def t j handle_parsed_def extract_result_def
        validate_results_def)
  have s1: "(200::nat) \<le> 200" and s2: "(200::nat) \<le> 299"
    by simp_all
  have b: "attempt rt_null_body tk rb fallbackUrl =
      handle_parsed (Number_toString rt_null_body) tk body_results" for tk rb
    using g s1 s2 trim_text_results k by (rule attempt_ok)
  have c: "callN8N rt_null_body payload_AAA_BBB =
      ([(primaryUrl, request_init (requestBody payload_AAA_BBB)),
        (fallbackUrl, request_init (requestBody payload_AAA_BBB))],
       handle_parsed (Number_toString rt_null_body) (normalized_tickers payload_AAA_BBB)
         body_results)"
    by (simp add: callN8N_unfold a b)
  show ?thesis
    using callN8N_unprintable_error [of payload_AAA_BBB]
    by (simp add: c a validate_body_results f t j ok_def m q v w callN8N_empty_error_array)
qed

end
